theory Spec2Isabelle
  imports Main
begin

section \<open>SecureNN: the non-linear layer of tensorflow_encrypted/protocol/securenn.py\<close>

text \<open>
  The module under study is \<^verbatim>\<open>protocol/securenn.py\<close>: the class \<^verbatim>\<open>SecureNN(Pond)\<close> and the
  module-level helpers \<^verbatim>\<open>_lsb_private\<close>, \<^verbatim>\<open>_lsb_masked\<close>, \<^verbatim>\<open>_generate_random_bits\<close> and
  \<^verbatim>\<open>share_with_wrap\<close>. Its collaborators (the Pond base protocol, the tensor backends, the
  dispatcher and the memoisation decorator) live in other modules; they are modelled from
  the specification and each such definition says so.

  Conventions of the embedding.
  \<^item> A raise is a value: every operation that can raise returns \<open>error + 'a\<close>.
  \<^item> Randomness is an argument: a sampling call receives the function that gives its
    \<open>i\<close>-th draw, an operation that samples several times receives one such function per
    sampling call.
  \<^item> \<^verbatim>\<open>@memoize\<close> is left out: the decorated methods are functions of their operands,
    which are never mutated, so a cached result is the result of the call.
  \<^item> \<^verbatim>\<open>tf.device\<close> and \<^verbatim>\<open>tf.name_scope\<close> blocks only place and label a computation.
\<close>

subsection \<open>Errors\<close>

datatype error =
    AssertionError string
  | Exception string
  | NotImplementedError
  | TypeError
  | AttributeError

definition bind_err :: "error + 'a \<Rightarrow> ('a \<Rightarrow> error + 'b) \<Rightarrow> error + 'b" where
  "bind_err m f = (case m of Inl e \<Rightarrow> Inl e | Inr v \<Rightarrow> f v)"

definition not_scaled_msg :: string where
  "not_scaled_msg = ''Input is not supposed to be scaled''"

definition odd_cardinality_msg :: string where
  "odd_cardinality_msg =
     ''SecureNN protocol assumes a ring of odd cardinality, but it was initialized with an even one.''"

definition share_convert_msg :: string where
  "share_convert_msg =
     ''SecureNN share convert only support moduli of less or equal to 2 ** 64.''"

subsection \<open>The ring element backend\<close>

text \<open>
  A backend tensor is a shape, its entries in row-major order and the modulus of its
  class (\<^verbatim>\<open>tensor_factory.Tensor\<close>, \<^verbatim>\<open>PrimeTensor\<close>, \<^verbatim>\<open>OddImplicitTensor\<close>). The constructor
  stores the entries it is given; the arithmetic reduces.
\<close>

record tensor =
  shape :: "nat list"
  val :: "int list"
  modulus :: int

type_synonym draws = "nat \<Rightarrow> int"

definition well_shaped :: "tensor \<Rightarrow> bool" where
  "well_shaped t = (length (val t) = prod_list (shape t))"

definition in_ring :: "int \<Rightarrow> tensor \<Rightarrow> bool" where
  "in_ring m t = (modulus t = m \<and> list_all (\<lambda>v. 0 \<le> v \<and> v < m) (val t))"

text \<open>\<^verbatim>\<open>PrimeTensor(value, modulus)\<close>, as called in line 138 and 139.\<close>

definition PrimeTensor :: "nat list \<Rightarrow> int list \<Rightarrow> int \<Rightarrow> tensor" where
  "PrimeTensor sh vs m = \<lparr>shape = sh, val = vs, modulus = m\<rparr>"

text \<open>
  Modelled from the spec: the backend's entrywise ring arithmetic is not in this module
  (section 2, Ring Element Backend: fixed-modulus integer tensors supporting add/sub/mul).
  The result lives in the ring of the left operand.
\<close>

definition tensor_add :: "tensor \<Rightarrow> tensor \<Rightarrow> tensor" where
  "tensor_add x y = x\<lparr>val := map2 (\<lambda>a b. (a + b) mod modulus x) (val x) (val y)\<rparr>"

definition tensor_sub :: "tensor \<Rightarrow> tensor \<Rightarrow> tensor" where
  "tensor_sub x y = x\<lparr>val := map2 (\<lambda>a b. (a - b) mod modulus x) (val x) (val y)\<rparr>"

definition tensor_mul :: "tensor \<Rightarrow> tensor \<Rightarrow> tensor" where
  "tensor_mul x y = x\<lparr>val := map2 (\<lambda>a b. (a * b) mod modulus x) (val x) (val y)\<rparr>"

definition tensor_neg :: "tensor \<Rightarrow> tensor" where
  "tensor_neg x = x\<lparr>val := map (\<lambda>a. (- a) mod modulus x) (val x)\<rparr>"

text \<open>\<^verbatim>\<open>t + 1\<close> on a backend tensor: the integer is added to every entry, in the ring.\<close>

definition tensor_add_int :: "tensor \<Rightarrow> int \<Rightarrow> tensor" where
  "tensor_add_int x c = x\<lparr>val := map (\<lambda>a. (a + c) mod modulus x) (val x)\<rparr>"

text \<open>
  Modelled from the spec: \<^verbatim>\<open>from_native(np.ones(shape))\<close>, \<^verbatim>\<open>tf.ones\<close>, \<^verbatim>\<open>tf.zeros\<close> and
  \<^verbatim>\<open>np.zeros\<close> build the constant tensor of a shape.
\<close>

definition constant_tensor :: "int \<Rightarrow> nat list \<Rightarrow> int \<Rightarrow> tensor" where
  "constant_tensor m sh c = \<lparr>shape = sh, val = replicate (prod_list sh) c, modulus = m\<rparr>"

text \<open>
  Modelled from the spec: \<^verbatim>\<open>Tensor.sample_uniform(shape)\<close> is not in this module (section 6,
  \<^verbatim>\<open>sample_uniform(shape)\<close>: a uniform ring element per entry). Entry \<open>i\<close> is the \<open>i\<close>-th
  draw, reduced into the ring.
\<close>

definition sample_uniform :: "int \<Rightarrow> nat list \<Rightarrow> draws \<Rightarrow> tensor" where
  "sample_uniform m sh g =
     \<lparr>shape = sh, val = map (\<lambda>i. g i mod m) [0..<prod_list sh], modulus = m\<rparr>"

text \<open>
  Modelled from the spec: \<^verbatim>\<open>compute_wrap(shareA, shareB, modulus)\<close> is not in this module
  (section 3, Wrap Indicator: a single bit per entry recording whether summing two shares
  overflowed the modulus).
\<close>

definition compute_wrap :: "tensor \<Rightarrow> tensor \<Rightarrow> int \<Rightarrow> tensor" where
  "compute_wrap x y L = x\<lparr>val := map2 (\<lambda>a b. if a + b \<ge> L then 1 else 0) (val x) (val y)\<rparr>"

text \<open>
  Modelled from the spec: \<^verbatim>\<open>to_bits()\<close> is not in this module (section 6, \<^verbatim>\<open>to_bits(value)\<close>:
  the bit decomposition). It appends an axis holding the \<open>k\<close> bits of each entry, least
  significant first, so that index 0 of the last axis is the least significant bit.
\<close>

definition to_bits :: "nat \<Rightarrow> tensor \<Rightarrow> tensor" where
  "to_bits k x =
     x\<lparr>shape := shape x @ [k],
       val := concat (map (\<lambda>a. map (\<lambda>i. (a div 2 ^ i) mod 2) [0..<k]) (val x))\<rparr>"

text \<open>\<^verbatim>\<open>t[..., 0]\<close>: entry 0 of every row of the last axis.\<close>

definition last_axis_0 :: "tensor \<Rightarrow> tensor" where
  "last_axis_0 x =
     (let k = last (shape x)
      in x\<lparr>shape := butlast (shape x),
           val := map (\<lambda>i. val x ! (i * k)) [0..<prod_list (butlast (shape x))]\<rparr>)"

text \<open>
  Modelled from the spec: \<^verbatim>\<open>to_odd_modulus()\<close> of a backend tensor is not in this module
  (section 6, \<^verbatim>\<open>reinterpret_to_ring(value, target_ring)\<close>; section 3: the odd-cardinality
  ring has cardinality \<open>M - 1\<close>). The entry is read as an element of the target ring.
\<close>

definition tensor_to_odd_modulus :: "int \<Rightarrow> tensor \<Rightarrow> tensor" where
  "tensor_to_odd_modulus n x = x\<lparr>val := map (\<lambda>a. a mod n) (val x), modulus := n\<rparr>"

text \<open>
  Modelled from the spec: \<^verbatim>\<open>OddImplicitTensor.optional_sub\<close> is not in this module
  (section 4.3 step 7: \<^verbatim>\<open>constant - x_share\<close> where the bitmask bit is 1, else the share
  left unchanged, under the odd modulus).
\<close>

definition optional_sub :: "tensor \<Rightarrow> tensor \<Rightarrow> tensor \<Rightarrow> tensor" where
  "optional_sub c x bits =
     c\<lparr>val := map2 (\<lambda>(a, b) bit. if bit = 1 then (a - b) mod modulus c else b)
                 (zip (val c) (val x)) (val bits)\<rparr>"

subsection \<open>Pond values\<close>

datatype PondTensor =
    PondPublicTensor tensor tensor bool
  | PondPrivateTensor tensor tensor bool
  | PondMaskedTensor PondTensor tensor tensor tensor tensor tensor bool

fun is_scaled :: "PondTensor \<Rightarrow> bool" where
  "is_scaled (PondPublicTensor v0 v1 s) = s"
| "is_scaled (PondPrivateTensor s0 s1 s) = s"
| "is_scaled (PondMaskedTensor u a a0 a1 al0 al1 s) = s"

fun unmask :: "PondTensor \<Rightarrow> PondTensor" where
  "unmask (PondMaskedTensor u a a0 a1 al0 al1 s) = unmask u"
| "unmask x = x"

fun pond_shape :: "PondTensor \<Rightarrow> nat list" where
  "pond_shape (PondPublicTensor v0 v1 s) = shape v0"
| "pond_shape (PondPrivateTensor s0 s1 s) = shape s0"
| "pond_shape (PondMaskedTensor u a a0 a1 al0 al1 s) = pond_shape u"

text \<open>
  The protocol instance: \<^verbatim>\<open>self.M\<close> and \<^verbatim>\<open>self.tensor_factory.Tensor.modulus\<close> read the one
  modulus fixed at construction; \<open>bitlength\<close> is the width of the backend's \<^verbatim>\<open>to_bits\<close>.
  \<^verbatim>\<open>alt_factory\<close> is \<^verbatim>\<open>prime_factory(p)\<close> with the module constant \<^verbatim>\<open>p = 67\<close>.
\<close>

record SecureNN =
  M :: int
  bitlength :: nat

definition p :: int where
  "p = 67"

text \<open>
  Modelled from the spec: \<^verbatim>\<open>Pond._share(secret, factory)\<close> is not in this module (section 6,
  \<^verbatim>\<open>(re-)share(value[, target_ring])\<close>; section 3: the two shares sum to the secret modulo
  the ring). The first share is sampled in the target ring, the second is the secret minus
  the first.
\<close>

definition pond_share :: "int \<Rightarrow> draws \<Rightarrow> tensor \<Rightarrow> tensor \<times> tensor" where
  "pond_share m g secret =
     (let share0 = sample_uniform m (shape secret) g;
          share1 = \<lparr>shape = shape secret,
                    val = map2 (\<lambda>s r. (s - r) mod m) (val secret) (val share0),
                    modulus = m\<rparr>
      in (share0, share1))"

text \<open>
  Modelled from the spec: \<^verbatim>\<open>reveal\<close> is not in this module (glossary: combining the shares
  by addition modulo the ring's cardinality); a public value is two identical copies.
\<close>

fun reconstruct :: "PondTensor \<Rightarrow> tensor" where
  "reconstruct (PondPublicTensor v0 v1 s) = v0"
| "reconstruct (PondPrivateTensor s0 s1 s) = tensor_add s0 s1"
| "reconstruct (PondMaskedTensor u a a0 a1 al0 al1 s) = reconstruct u"

definition reveal :: "PondTensor \<Rightarrow> PondTensor" where
  "reveal x = PondPublicTensor (reconstruct x) (reconstruct x) (is_scaled x)"

text \<open>
  Modelled from the spec: Pond lifts a Python integer next to a tensor operand to a public
  constant of the operand's shape and encoding (section 3, Public Shared Value). The
  fixed-point encoding of a constant beside a scaled operand is not modelled: only the flag
  is carried.
\<close>

definition lift_int :: "SecureNN \<Rightarrow> PondTensor \<Rightarrow> int \<Rightarrow> PondTensor" where
  "lift_int prot x c =
     (let t = constant_tensor (M prot) (pond_shape x) (c mod M prot)
      in PondPublicTensor t t (is_scaled x))"

text \<open>
  Modelled from the spec: Pond's \<^verbatim>\<open>add\<close>, \<^verbatim>\<open>sub\<close> and \<^verbatim>\<open>mul\<close> are not in this module
  (section 6 lists them as consumed; section 3 fixes the invariant they keep). Addition and
  subtraction act on each party's share, a public operand entering on party 0 only; a
  masked operand stands for its unmasked interior. Multiplication by a public value
  multiplies both shares; the product of two private values is the product of the two
  secrets, shared afresh with the draws \<open>g\<close>. Truncation after a product of two scaled
  operands is not modelled. The last case of each definition is never reached, since
  \<open>unmask\<close> returns no masked value.
\<close>

definition pond_add :: "PondTensor \<Rightarrow> PondTensor \<Rightarrow> PondTensor" where
  "pond_add x y =
     (case (unmask x, unmask y) of
        (PondPublicTensor x0 x1 sx, PondPublicTensor y0 y1 sy) \<Rightarrow>
          PondPublicTensor (tensor_add x0 y0) (tensor_add x1 y1) (sx \<or> sy)
      | (PondPublicTensor x0 x1 sx, PondPrivateTensor y0 y1 sy) \<Rightarrow>
          PondPrivateTensor (tensor_add x0 y0) y1 (sx \<or> sy)
      | (PondPrivateTensor x0 x1 sx, PondPublicTensor y0 y1 sy) \<Rightarrow>
          PondPrivateTensor (tensor_add x0 y0) x1 (sx \<or> sy)
      | (PondPrivateTensor x0 x1 sx, PondPrivateTensor y0 y1 sy) \<Rightarrow>
          PondPrivateTensor (tensor_add x0 y0) (tensor_add x1 y1) (sx \<or> sy)
      | (_, _) \<Rightarrow> x)"

definition pond_sub :: "PondTensor \<Rightarrow> PondTensor \<Rightarrow> PondTensor" where
  "pond_sub x y =
     (case (unmask x, unmask y) of
        (PondPublicTensor x0 x1 sx, PondPublicTensor y0 y1 sy) \<Rightarrow>
          PondPublicTensor (tensor_sub x0 y0) (tensor_sub x1 y1) (sx \<or> sy)
      | (PondPublicTensor x0 x1 sx, PondPrivateTensor y0 y1 sy) \<Rightarrow>
          PondPrivateTensor (tensor_sub x0 y0) (tensor_neg y1) (sx \<or> sy)
      | (PondPrivateTensor x0 x1 sx, PondPublicTensor y0 y1 sy) \<Rightarrow>
          PondPrivateTensor (tensor_sub x0 y0) x1 (sx \<or> sy)
      | (PondPrivateTensor x0 x1 sx, PondPrivateTensor y0 y1 sy) \<Rightarrow>
          PondPrivateTensor (tensor_sub x0 y0) (tensor_sub x1 y1) (sx \<or> sy)
      | (_, _) \<Rightarrow> x)"

definition pond_mul :: "SecureNN \<Rightarrow> draws \<Rightarrow> PondTensor \<Rightarrow> PondTensor \<Rightarrow> PondTensor" where
  "pond_mul prot g x y =
     (case (unmask x, unmask y) of
        (PondPublicTensor x0 x1 sx, PondPublicTensor y0 y1 sy) \<Rightarrow>
          PondPublicTensor (tensor_mul x0 y0) (tensor_mul x1 y1) (sx \<or> sy)
      | (PondPublicTensor x0 x1 sx, PondPrivateTensor y0 y1 sy) \<Rightarrow>
          PondPrivateTensor (tensor_mul x0 y0) (tensor_mul x1 y1) (sx \<or> sy)
      | (PondPrivateTensor x0 x1 sx, PondPublicTensor y0 y1 sy) \<Rightarrow>
          PondPrivateTensor (tensor_mul x0 y0) (tensor_mul x1 y1) (sx \<or> sy)
      | (PondPrivateTensor x0 x1 sx, PondPrivateTensor y0 y1 sy) \<Rightarrow>
          (let z = tensor_mul (tensor_add x0 x1) (tensor_add y0 y1);
               (z0, z1) = pond_share (M prot) g z
           in PondPrivateTensor z0 z1 (sx \<or> sy))
      | (_, _) \<Rightarrow> x)"

text \<open>A product with a public constant samples nothing.\<close>

definition no_draws :: draws where
  "no_draws = (\<lambda>i. 0)"

text \<open>
  \<^verbatim>\<open>.unwrapped\<close>, \<^verbatim>\<open>.share0\<close>, \<^verbatim>\<open>.share1\<close>, \<^verbatim>\<open>.value_on_0\<close> and \<^verbatim>\<open>.value_on_1\<close>: the two
  backing tensors of a value. The module reads them only on values it has just built as
  private or public.
\<close>

fun unwrapped :: "PondTensor \<Rightarrow> tensor \<times> tensor" where
  "unwrapped (PondPublicTensor v0 v1 s) = (v0, v1)"
| "unwrapped (PondPrivateTensor s0 s1 s) = (s0, s1)"
| "unwrapped (PondMaskedTensor u a a0 a1 al0 al1 s) = unwrapped u"

subsection \<open>Boolean-ring algebra (lines 40 to 61)\<close>

definition bitwise_not :: "SecureNN \<Rightarrow> PondTensor \<Rightarrow> error + PondTensor" where
  "bitwise_not prot x =
     (if is_scaled x then Inl (AssertionError not_scaled_msg)
      else Inr (pond_sub (lift_int prot x 1) x))"

definition bitwise_and :: "SecureNN \<Rightarrow> draws \<Rightarrow> PondTensor \<Rightarrow> PondTensor \<Rightarrow> error + PondTensor" where
  "bitwise_and prot g x y =
     (if is_scaled x then Inl (AssertionError not_scaled_msg)
      else if is_scaled y then Inl (AssertionError not_scaled_msg)
      else Inr (pond_mul prot g x y))"

definition bitwise_or :: "SecureNN \<Rightarrow> draws \<Rightarrow> PondTensor \<Rightarrow> PondTensor \<Rightarrow> error + PondTensor" where
  "bitwise_or prot g x y =
     (if is_scaled x then Inl (AssertionError not_scaled_msg)
      else if is_scaled y then Inl (AssertionError not_scaled_msg)
      else bind_err (bitwise_and prot g x y) (\<lambda>xy. Inr (pond_sub (pond_add x y) xy)))"

definition bitwise_xor :: "SecureNN \<Rightarrow> draws \<Rightarrow> PondTensor \<Rightarrow> PondTensor \<Rightarrow> error + PondTensor" where
  "bitwise_xor prot g x y =
     (if is_scaled x then Inl (AssertionError not_scaled_msg)
      else if is_scaled y then Inl (AssertionError not_scaled_msg)
      else bind_err (bitwise_and prot g x y)
             (\<lambda>xy. Inr (pond_sub (pond_add x y)
                              (pond_mul prot no_draws xy (lift_int prot xy 2)))))"

subsection \<open>Unimplemented operations (lines 118, 185, 193, 196)\<close>

definition private_compare ::
  "SecureNN \<Rightarrow> PondTensor \<Rightarrow> PondTensor \<Rightarrow> PondTensor \<Rightarrow> error + PondTensor" where
  "private_compare prot x r beta = Inl NotImplementedError"

definition divide :: "SecureNN \<Rightarrow> PondTensor \<Rightarrow> PondTensor \<Rightarrow> error + PondTensor" where
  "divide prot x y = Inl NotImplementedError"

definition max_pool :: "SecureNN \<Rightarrow> PondTensor \<Rightarrow> error + PondTensor" where
  "max_pool prot x = Inl NotImplementedError"

definition dmax_pool_efficient :: "SecureNN \<Rightarrow> PondTensor \<Rightarrow> error + PondTensor" where
  "dmax_pool_efficient prot x = Inl NotImplementedError"

subsection \<open>Randomness and wrap helpers (lines 245 to 254)\<close>

definition generate_random_bits :: "SecureNN \<Rightarrow> nat list \<Rightarrow> draws \<Rightarrow> PondTensor" where
  "generate_random_bits prot sh g =
     (let backing = sample_uniform 2 sh g
      in PondPublicTensor backing backing False)"

definition share_with_wrap ::
  "SecureNN \<Rightarrow> draws \<Rightarrow> tensor \<Rightarrow> int \<Rightarrow> tensor \<times> tensor \<times> tensor" where
  "share_with_wrap prot g sample m =
     (let (x, y) = pond_share (M prot) g sample;
          kappa = compute_wrap x y m
      in (x, y, kappa))"

subsection \<open>Bit extraction and comparisons (lines 76 to 112, 188 to 191, 209 to 242)\<close>

text \<open>
  \<^verbatim>\<open>_lsb_private\<close>. The draws are: 0 the mask \<^verbatim>\<open>x\<close>, 1 to 3 its three sharings, 4 the
  blinding bits \<^verbatim>\<open>b\<close>, 5 to 7 the three exclusive-ors. \<^verbatim>\<open>random.choice(devices)\<close> picks
  where \<^verbatim>\<open>b\<close> is sampled and has no bearing on a value. \<^verbatim>\<open>rbits[..., 0]\<close> indexes both
  copies of the public value.
\<close>

definition lsb_private :: "SecureNN \<Rightarrow> (nat \<Rightarrow> draws) \<Rightarrow> PondTensor \<Rightarrow> error + PondTensor" where
  "lsb_private prot rnd y =
     (let x = sample_uniform (M prot) (pond_shape y) (rnd 0);
          xbits = to_bits (bitlength prot) x;
          xlsb = last_axis_0 xbits;
          (x0, x1) = pond_share (M prot) (rnd 1) x;
          x = PondPrivateTensor x0 x1 False;
          (xbits0, xbits1) = pond_share p (rnd 2) xbits;
          xbits = PondPrivateTensor xbits0 xbits1 False;
          (xlsb0, xlsb1) = pond_share (M prot) (rnd 3) xlsb;
          xlsb = PondPrivateTensor xlsb0 xlsb1 False;
          b = generate_random_bits prot (pond_shape y) (rnd 4);
          r = reveal (pond_add y x);
          (r0, r1) = unwrapped r;
          rbits0 = to_bits (bitlength prot) r0;
          rbits1 = to_bits (bitlength prot) r1;
          rlsb = PondPublicTensor (last_axis_0 rbits0) (last_axis_0 rbits1) False
      in bind_err (private_compare prot xbits r b) (\<lambda>bp.
         bind_err (bitwise_xor prot (rnd 5) bp b) (\<lambda>gamma.
         bind_err (bitwise_xor prot (rnd 6) xlsb rlsb) (\<lambda>delta.
         bitwise_xor prot (rnd 7) gamma delta))))"

text \<open>
  \<^verbatim>\<open>lsb\<close> dispatches on the variant of its operand: \<^verbatim>\<open>_lsb_private\<close> for a private value,
  \<^verbatim>\<open>_lsb_masked\<close> (the \<^verbatim>\<open>lsb\<close> of the unmasked interior) for a masked one.
  Modelled from the spec: \<^verbatim>\<open>dispatch\<close> is not in this module (section 9: resolution over the
  variants private, public, masked); the module has no \<^verbatim>\<open>_lsb_public\<close>, and a variant
  without an implementation is a type error.
\<close>

fun lsb :: "SecureNN \<Rightarrow> (nat \<Rightarrow> draws) \<Rightarrow> PondTensor \<Rightarrow> error + PondTensor" where
  "lsb prot rnd (PondPrivateTensor s0 s1 s) = lsb_private prot rnd (PondPrivateTensor s0 s1 s)"
| "lsb prot rnd (PondMaskedTensor u a a0 a1 al0 al1 s) = lsb prot rnd u"
| "lsb prot rnd (PondPublicTensor v0 v1 s) = Inl TypeError"

definition msb :: "SecureNN \<Rightarrow> (nat \<Rightarrow> draws) \<Rightarrow> PondTensor \<Rightarrow> error + PondTensor" where
  "msb prot rnd x =
     (if M prot mod 2 \<noteq> 1 then Inl (Exception odd_cardinality_msg)
      else lsb prot rnd (pond_mul prot no_draws x (lift_int prot x 2)))"

definition negative :: "SecureNN \<Rightarrow> (nat \<Rightarrow> draws) \<Rightarrow> PondTensor \<Rightarrow> error + PondTensor" where
  "negative prot rnd x = msb prot rnd x"

definition non_negative :: "SecureNN \<Rightarrow> (nat \<Rightarrow> draws) \<Rightarrow> PondTensor \<Rightarrow> error + PondTensor" where
  "non_negative prot rnd x = bind_err (msb prot rnd x) (bitwise_not prot)"

definition less ::
  "SecureNN \<Rightarrow> (nat \<Rightarrow> draws) \<Rightarrow> PondTensor \<Rightarrow> PondTensor \<Rightarrow> error + PondTensor" where
  "less prot rnd x y = negative prot rnd (pond_sub x y)"

definition greater ::
  "SecureNN \<Rightarrow> (nat \<Rightarrow> draws) \<Rightarrow> PondTensor \<Rightarrow> PondTensor \<Rightarrow> error + PondTensor" where
  "greater prot rnd x y = negative prot rnd (pond_sub y x)"

definition less_equal ::
  "SecureNN \<Rightarrow> (nat \<Rightarrow> draws) \<Rightarrow> PondTensor \<Rightarrow> PondTensor \<Rightarrow> error + PondTensor" where
  "less_equal prot rnd x y = bind_err (greater prot rnd x y) (bitwise_not prot)"

definition greater_equal ::
  "SecureNN \<Rightarrow> (nat \<Rightarrow> draws) \<Rightarrow> PondTensor \<Rightarrow> PondTensor \<Rightarrow> error + PondTensor" where
  "greater_equal prot rnd x y = bind_err (less prot rnd x y) (bitwise_not prot)"

text \<open>\<^verbatim>\<open>relu\<close>: draw 8 is the product \<^verbatim>\<open>drelu * x\<close>.\<close>

definition relu :: "SecureNN \<Rightarrow> (nat \<Rightarrow> draws) \<Rightarrow> PondTensor \<Rightarrow> error + PondTensor" where
  "relu prot rnd x =
     bind_err (non_negative prot rnd x) (\<lambda>drelu. Inr (pond_mul prot (rnd 8) drelu x))"

subsection \<open>Share conversion (lines 63 to 74, 121 to 183, 199 to 206)\<close>

text \<open>
  \<^verbatim>\<open>to_odd_modulus\<close> and \<^verbatim>\<open>odd_modulus_bitwise_xor\<close> read \<^verbatim>\<open>.share0\<close> and \<^verbatim>\<open>.share1\<close>, which
  only a private value has, and \<^verbatim>\<open>.value_on_0\<close>, \<^verbatim>\<open>.value_on_1\<close>, which only a public value
  has. An \<^verbatim>\<open>OddImplicitTensor\<close> is a tensor of the odd ring of cardinality \<open>M - 1\<close>.
\<close>

definition to_odd_modulus :: "SecureNN \<Rightarrow> PondTensor \<Rightarrow> error + PondTensor" where
  "to_odd_modulus prot x =
     (case x of
        PondPrivateTensor x0 x1 s \<Rightarrow>
          (let share0 = tensor_to_odd_modulus (M prot - 1) x0;
               share1 = tensor_to_odd_modulus (M prot - 1) x1
           in Inr (PondPrivateTensor share0 share1 False))
      | _ \<Rightarrow> Inl AttributeError)"

definition odd_modulus_bitwise_xor ::
  "SecureNN \<Rightarrow> PondTensor \<Rightarrow> PondTensor \<Rightarrow> error + PondTensor" where
  "odd_modulus_bitwise_xor prot x bits =
     (case (x, bits) of
        (PondPrivateTensor x0 x1 s, PondPublicTensor bits0 bits1 sb) \<Rightarrow>
          (let ones = constant_tensor (M prot - 1) (shape x0) 1;
               share0 = optional_sub ones x0 bits0;
               zeros = constant_tensor (M prot - 1) (shape x0) 0;
               share1 = optional_sub zeros x1 bits1
           in Inr (PondPrivateTensor share0 share1 False))
      | (_, _) \<Rightarrow> Inl AttributeError)"

text \<open>
  Lines 164 to 171: the call of \<^verbatim>\<open>private_compare\<close> is commented out; \<^verbatim>\<open>outbit\<close> is the
  public all-ones tensor of the operand's shape and \<^verbatim>\<open>compared\<close> a sharing of it.
\<close>

definition share_convert_compared :: "SecureNN \<Rightarrow> draws \<Rightarrow> nat list \<Rightarrow> PondTensor" where
  "share_convert_compared prot g sh =
     (let inp = constant_tensor (M prot) sh 1;
          outbit = PondPublicTensor inp inp False;
          (compared0, compared1) = pond_share (M prot) g (fst (unwrapped outbit))
      in PondPrivateTensor compared0 compared1 False)"

text \<open>
  \<^verbatim>\<open>share_convert\<close>. The draws are: 0 \<^verbatim>\<open>bitmask\<close>, 1 \<^verbatim>\<open>sharemask\<close>, 2 the sharing of
  \<^verbatim>\<open>sharemask\<close>, 3 the sharing of \<^verbatim>\<open>delta_wrap\<close>, 4 the sharing of \<^verbatim>\<open>xbits\<close>, 5 the sharing of
  \<^verbatim>\<open>outbit\<close>.
\<close>

definition share_convert :: "SecureNN \<Rightarrow> (nat \<Rightarrow> draws) \<Rightarrow> PondTensor \<Rightarrow> error + PondTensor" where
  "share_convert prot rnd x =
     (let L = M prot
      in if L > 2 ^ 64 then Inl (Exception share_convert_msg)
         else
           (case x of
              PondPrivateTensor x_share0 x_share1 sx \<Rightarrow>
                (let bitmask = generate_random_bits prot (pond_shape x) (rnd 0);
                     sharemask = tensor_add_int (sample_uniform L (pond_shape x) (rnd 1)) 1;
                     (sharemask0, sharemask1, alpha_wrap) = share_with_wrap prot (rnd 2) sharemask L;
                     pvt_sharemask = PondPrivateTensor sharemask0 sharemask1 False;
                     masked = pond_add x pvt_sharemask;
                     alpha_wrap_t =
                       PrimeTensor (shape alpha_wrap) (map (\<lambda>a. - a - 1) (val alpha_wrap)) p;
                     zero =
                       PrimeTensor (shape alpha_wrap) (replicate (prod_list (shape alpha_wrap)) 0) p;
                     alpha = PondPrivateTensor alpha_wrap_t zero False;
                     beta_wrap_0 = compute_wrap x_share0 sharemask0 L;
                     beta_wrap_1 = compute_wrap x_share1 sharemask1 L;
                     beta_wrap = PondPrivateTensor beta_wrap_0 beta_wrap_1 False;
                     delta_wrap = compute_wrap (fst (unwrapped masked)) (snd (unwrapped masked)) L;
                     x_pub_masked = reveal masked;
                     xbits = to_bits (bitlength prot) (fst (unwrapped x_pub_masked));
                     (deltashare0, deltashare1) = pond_share L (rnd 3) delta_wrap;
                     (bitshare0, bitshare1) = pond_share p (rnd 4) xbits;
                     bitshares = PondPrivateTensor bitshare0 bitshare1 False;
                     deltashares = PondPrivateTensor deltashare0 deltashare1 False;
                     compared = share_convert_compared prot (rnd 5) (pond_shape x)
                 in bind_err (odd_modulus_bitwise_xor prot compared bitmask) (\<lambda>preconverter.
                    bind_err (to_odd_modulus prot deltashares) (\<lambda>deltashares.
                    bind_err (to_odd_modulus prot beta_wrap) (\<lambda>beta_wrap.
                    let converter = pond_add (pond_add beta_wrap preconverter) deltashares
                    in bind_err (to_odd_modulus prot alpha) (\<lambda>alpha_odd.
                       let converter = pond_add converter alpha_odd
                       in bind_err (to_odd_modulus prot x) (\<lambda>x_odd.
                          Inr (pond_sub x_odd converter)))))))
            | _ \<Rightarrow> Inl AttributeError))"

text \<open>
  Lines 130 to 162 and 176 to 183 of \<^verbatim>\<open>share_convert\<close> for a given \<^verbatim>\<open>preconverter\<close>: all of its
  body but the bitmask (line 129), the comparison bit (lines 164 to 171) and their
  exclusive-or (line 174). The draws are those of \<^verbatim>\<open>share_convert\<close>.
\<close>

definition share_convert_finish ::
  "SecureNN \<Rightarrow> (nat \<Rightarrow> draws) \<Rightarrow> PondTensor \<Rightarrow> PondTensor \<Rightarrow> error + PondTensor" where
  "share_convert_finish prot rnd x preconverter =
     (let L = M prot
      in case x of
           PondPrivateTensor x_share0 x_share1 sx \<Rightarrow>
             (let sharemask = tensor_add_int (sample_uniform L (pond_shape x) (rnd 1)) 1;
                  (sharemask0, sharemask1, alpha_wrap) = share_with_wrap prot (rnd 2) sharemask L;
                  pvt_sharemask = PondPrivateTensor sharemask0 sharemask1 False;
                  masked = pond_add x pvt_sharemask;
                  alpha_wrap_t =
                    PrimeTensor (shape alpha_wrap) (map (\<lambda>a. - a - 1) (val alpha_wrap)) p;
                  zero =
                    PrimeTensor (shape alpha_wrap) (replicate (prod_list (shape alpha_wrap)) 0) p;
                  alpha = PondPrivateTensor alpha_wrap_t zero False;
                  beta_wrap_0 = compute_wrap x_share0 sharemask0 L;
                  beta_wrap_1 = compute_wrap x_share1 sharemask1 L;
                  beta_wrap = PondPrivateTensor beta_wrap_0 beta_wrap_1 False;
                  delta_wrap = compute_wrap (fst (unwrapped masked)) (snd (unwrapped masked)) L;
                  (deltashare0, deltashare1) = pond_share L (rnd 3) delta_wrap;
                  deltashares = PondPrivateTensor deltashare0 deltashare1 False
              in bind_err (to_odd_modulus prot deltashares) (\<lambda>deltashares.
                 bind_err (to_odd_modulus prot beta_wrap) (\<lambda>beta_wrap.
                 let converter = pond_add (pond_add beta_wrap preconverter) deltashares
                 in bind_err (to_odd_modulus prot alpha) (\<lambda>alpha_odd.
                    let converter = pond_add converter alpha_odd
                    in bind_err (to_odd_modulus prot x) (\<lambda>x_odd.
                       Inr (pond_sub x_odd converter))))))
         | _ \<Rightarrow> Inl AttributeError)"

subsection \<open>Reading a result; the inputs of the boolean algebra\<close>

text \<open>The entries a value reconstructs to.\<close>

definition plaintext :: "PondTensor \<Rightarrow> int list" where
  "plaintext x = val (reconstruct x)"

text \<open>
  An unscaled private value of the main ring whose two shares have one shape and whose
  entries all reconstruct to a bit.
\<close>

definition encodes_bits :: "SecureNN \<Rightarrow> PondTensor \<Rightarrow> bool" where
  "encodes_bits prot x =
     (case x of
        PondPrivateTensor x0 x1 s \<Rightarrow>
          \<not> s \<and> modulus x0 = M prot \<and> modulus x1 = M prot \<and> well_shaped x0 \<and> well_shaped x1 \<and>
          shape x1 = shape x0 \<and> list_all (\<lambda>v. v = 0 \<or> v = 1) (val (tensor_add x0 x1))
      | _ \<Rightarrow> False)"

subsection \<open>Concrete configurations and inputs\<close>

definition example_even :: SecureNN where
  "example_even = \<lparr>M = 2 ^ 64, bitlength = 64\<rparr>"

definition example_odd :: SecureNN where
  "example_odd = \<lparr>M = 2 ^ 64 - 1, bitlength = 64\<rparr>"

definition example_large :: SecureNN where
  "example_large = \<lparr>M = 2 ^ 64 + 1, bitlength = 65\<rparr>"

text \<open>Draws: the mask \<^verbatim>\<open>sharemask\<close> is \<open>2^64 - 2\<close> on entry 0 and 8 on entry 1; every other draw is 0.\<close>

definition example_draws :: "nat \<Rightarrow> draws" where
  "example_draws k = (if k = 1 then (\<lambda>i. if i = 0 then 2 ^ 64 - 3 else 7) else (\<lambda>i. 0))"

text \<open>A private value of the ring \<open>2^64\<close> with plaintext \<open>[5, 5]\<close>, unscaled and scaled.\<close>

definition example_input :: PondTensor where
  "example_input =
     PondPrivateTensor \<lparr>shape = [2], val = [0, 0], modulus = 2 ^ 64\<rparr>
                       \<lparr>shape = [2], val = [5, 5], modulus = 2 ^ 64\<rparr> False"

definition example_scaled :: PondTensor where
  "example_scaled =
     PondPrivateTensor \<lparr>shape = [2], val = [0, 0], modulus = 2 ^ 64\<rparr>
                       \<lparr>shape = [2], val = [5, 5], modulus = 2 ^ 64\<rparr> True"

text \<open>Private values of the odd ring \<open>2^64 - 1\<close> with plaintexts \<open>[0]\<close> and \<open>[1]\<close>.\<close>

definition example_a :: PondTensor where
  "example_a =
     PondPrivateTensor \<lparr>shape = [1], val = [3], modulus = 2 ^ 64 - 1\<rparr>
                       \<lparr>shape = [1], val = [2 ^ 64 - 4], modulus = 2 ^ 64 - 1\<rparr> False"

definition example_b :: PondTensor where
  "example_b =
     PondPrivateTensor \<lparr>shape = [1], val = [9], modulus = 2 ^ 64 - 1\<rparr>
                       \<lparr>shape = [1], val = [2 ^ 64 - 9], modulus = 2 ^ 64 - 1\<rparr> False"

text \<open>Private bit values of the ring \<open>2^64\<close> with plaintexts \<open>[0, 0, 1, 1]\<close> and \<open>[0, 1, 0, 1]\<close>.\<close>

definition example_bits_x :: PondTensor where
  "example_bits_x =
     PondPrivateTensor \<lparr>shape = [4], val = [3, 2 ^ 64 - 7, 4, 0], modulus = 2 ^ 64\<rparr>
                       \<lparr>shape = [4], val = [2 ^ 64 - 3, 7, 2 ^ 64 - 3, 1], modulus = 2 ^ 64\<rparr> False"

definition example_bits_y :: PondTensor where
  "example_bits_y =
     PondPrivateTensor \<lparr>shape = [4], val = [0, 1, 2 ^ 64 - 1, 2], modulus = 2 ^ 64\<rparr>
                       \<lparr>shape = [4], val = [0, 0, 1, 2 ^ 64 - 1], modulus = 2 ^ 64\<rparr> False"

definition example_sample :: tensor where
  "example_sample = \<lparr>shape = [2], val = [5, 2 ^ 64 - 1], modulus = 2 ^ 64\<rparr>"

definition example_share_draws :: draws where
  "example_share_draws = (\<lambda>i. 9 + int i)"

section \<open>Raising paths\<close>

subsection \<open>Where the private least-significant-bit path ends\<close>

lemma lsb_private_raises: "lsb_private prot rnd y = Inl NotImplementedError"
  by (simp add: lsb_private_def private_compare_def bind_err_def Let_def split: prod.splits)

lemma lsb_of_private: "lsb prot rnd (PondPrivateTensor s0 s1 sc) = Inl NotImplementedError"
  by (simp add: lsb_private_raises)

lemma double_private:
  "\<exists>z0 z1 sz. pond_mul prot g (PondPrivateTensor s0 s1 sc) (lift_int prot x c)
                  = PondPrivateTensor z0 z1 sz"
  by (simp add: pond_mul_def lift_int_def Let_def)

lemma sub_private:
  "\<exists>z0 z1. pond_sub (PondPrivateTensor s0 s1 sc) (PondPrivateTensor t0 t1 sc')
               = PondPrivateTensor z0 z1 (sc \<or> sc')"
  by (simp add: pond_sub_def)

lemma msb_even: "M prot mod 2 \<noteq> 1 \<Longrightarrow> msb prot rnd x = Inl (Exception odd_cardinality_msg)"
  by (simp add: msb_def)

lemma msb_odd_private:
  assumes "M prot mod 2 = 1"
  shows "msb prot rnd (PondPrivateTensor s0 s1 sc) = Inl NotImplementedError"
proof -
  obtain z0 z1 sz where
    "pond_mul prot no_draws (PondPrivateTensor s0 s1 sc)
         (lift_int prot (PondPrivateTensor s0 s1 sc) 2) = PondPrivateTensor z0 z1 sz"
    using double_private by blast
  with assms show ?thesis by (simp add: msb_def lsb_private_raises)
qed

lemma negative_private:
  "negative prot rnd (PondPrivateTensor s0 s1 sc) =
     Inl (if M prot mod 2 = 1 then NotImplementedError else Exception odd_cardinality_msg)"
  using msb_odd_private [of prot rnd s0 s1 sc] msb_even [of prot rnd "PondPrivateTensor s0 s1 sc"]
  by (simp add: negative_def)

lemma less_private:
  "less prot rnd (PondPrivateTensor s0 s1 sc) (PondPrivateTensor t0 t1 sc') =
     Inl (if M prot mod 2 = 1 then NotImplementedError else Exception odd_cardinality_msg)"
proof -
  obtain z0 z1 where
    "pond_sub (PondPrivateTensor s0 s1 sc) (PondPrivateTensor t0 t1 sc')
       = PondPrivateTensor z0 z1 (sc \<or> sc')"
    using sub_private by blast
  then show ?thesis by (simp add: less_def negative_private)
qed

lemma greater_private:
  "greater prot rnd (PondPrivateTensor s0 s1 sc) (PondPrivateTensor t0 t1 sc') =
     Inl (if M prot mod 2 = 1 then NotImplementedError else Exception odd_cardinality_msg)"
proof -
  obtain z0 z1 where
    "pond_sub (PondPrivateTensor t0 t1 sc') (PondPrivateTensor s0 s1 sc)
       = PondPrivateTensor z0 z1 (sc' \<or> sc)"
    using sub_private by blast
  then show ?thesis by (simp add: greater_def negative_private)
qed

lemma bind_err_Inl: "bind_err (Inl e) f = Inl e"
  by (simp add: bind_err_def)

subsection \<open>The outcomes of share conversion\<close>

lemma share_convert_private:
  "M prot \<le> 2 ^ 64 \<Longrightarrow> \<exists>z. share_convert prot rnd (PondPrivateTensor s0 s1 sc) = Inr z"
  by (simp add: share_convert_def Let_def bind_err_def share_with_wrap_def generate_random_bits_def
      share_convert_compared_def odd_modulus_bitwise_xor_def to_odd_modulus_def split: prod.splits)

lemma share_convert_cases:
  "share_convert prot rnd x = Inl (Exception share_convert_msg) \<and> M prot > 2 ^ 64 \<or>
   share_convert prot rnd x = Inl AttributeError \<and> M prot \<le> 2 ^ 64 \<or>
   (\<exists>z. share_convert prot rnd x = Inr z) \<and> M prot \<le> 2 ^ 64"
proof (cases "M prot > 2 ^ 64")
  case True
  then show ?thesis by (simp add: share_convert_def)
next
  case False
  then have le: "M prot \<le> 2 ^ 64" by simp
  show ?thesis
  proof (cases x)
    case (PondPrivateTensor s0 s1 sc)
    with le share_convert_private show ?thesis by simp
  qed (use le in \<open>simp_all add: share_convert_def\<close>)
qed

subsection \<open>Unimplemented operations\<close>

text \<open>
  Claim C7. \<^verbatim>\<open>private_compare\<close>, \<^verbatim>\<open>divide\<close>, \<^verbatim>\<open>max_pool\<close> and \<^verbatim>\<open>dmax_pool_efficient\<close> raise
  \<^verbatim>\<open>NotImplementedError\<close> on every input: the raise is the whole body, so nothing is
  computed before it.
\<close>

theorem unimplemented_operations_raise:
  "private_compare prot x r beta = Inl NotImplementedError \<and>
   divide prot x y = Inl NotImplementedError \<and>
   max_pool prot x = Inl NotImplementedError \<and>
   dmax_pool_efficient prot x = Inl NotImplementedError"
  by (simp add: private_compare_def divide_def max_pool_def dmax_pool_efficient_def)

subsection \<open>The scaling precondition of the boolean operators\<close>

text \<open>
  Claim C8. Each of \<^verbatim>\<open>bitwise_not\<close>, \<^verbatim>\<open>bitwise_and\<close>, \<^verbatim>\<open>bitwise_or\<close>, \<^verbatim>\<open>bitwise_xor\<close> raises the
  assertion error as soon as an operand is scaled, and on unscaled operands no assertion
  fires: the operator returns the value built from Pond's arithmetic.
\<close>

theorem boolean_operators_assert_unscaled:
  "(is_scaled x \<longrightarrow> bitwise_not prot x = Inl (AssertionError not_scaled_msg)) \<and>
   (is_scaled x \<or> is_scaled y \<longrightarrow>
      bitwise_and prot g x y = Inl (AssertionError not_scaled_msg) \<and>
      bitwise_or prot g x y = Inl (AssertionError not_scaled_msg) \<and>
      bitwise_xor prot g x y = Inl (AssertionError not_scaled_msg)) \<and>
   (\<not> is_scaled x \<longrightarrow> bitwise_not prot x = Inr (pond_sub (lift_int prot x 1) x)) \<and>
   (\<not> is_scaled x \<and> \<not> is_scaled y \<longrightarrow>
      bitwise_and prot g x y = Inr (pond_mul prot g x y) \<and>
      bitwise_or prot g x y = Inr (pond_sub (pond_add x y) (pond_mul prot g x y)) \<and>
      bitwise_xor prot g x y =
        Inr (pond_sub (pond_add x y)
               (pond_mul prot no_draws (pond_mul prot g x y)
                  (lift_int prot (pond_mul prot g x y) 2))))"
  by (simp add: bitwise_not_def bitwise_and_def bitwise_or_def bitwise_xor_def bind_err_def)

theorem boolean_operators_assert_unscaled_witness:
  "is_scaled example_scaled \<and>
   bitwise_not example_even example_scaled = Inl (AssertionError not_scaled_msg) \<and>
   bitwise_and example_even no_draws example_scaled example_input
     = Inl (AssertionError not_scaled_msg) \<and>
   bitwise_or example_even no_draws example_scaled example_input
     = Inl (AssertionError not_scaled_msg) \<and>
   bitwise_xor example_even no_draws example_scaled example_input
     = Inl (AssertionError not_scaled_msg) \<and>
   \<not> is_scaled example_input \<and>
   bitwise_not example_even example_input
     = Inr (pond_sub (lift_int example_even example_input 1) example_input) \<and>
   bitwise_and example_even no_draws example_input example_input
     = Inr (pond_mul example_even no_draws example_input example_input)"
  using boolean_operators_assert_unscaled [of example_scaled example_even example_input no_draws]
        boolean_operators_assert_unscaled [of example_input example_even example_input no_draws]
  by (simp add: example_scaled_def example_input_def)

subsection \<open>The modulus ceiling of share conversion\<close>

text \<open>
  Claim C10. Under a main modulus above \<open>2^64\<close> \<^verbatim>\<open>share_convert\<close> raises the configuration
  error on every input, as its first step; under a modulus of at most \<open>2^64\<close> that error is
  never the outcome.
\<close>

theorem share_convert_modulus_ceiling:
  "(M prot > 2 ^ 64 \<longrightarrow> share_convert prot rnd x = Inl (Exception share_convert_msg)) \<and>
   (M prot \<le> 2 ^ 64 \<longrightarrow> share_convert prot rnd x \<noteq> Inl (Exception share_convert_msg))"
  using share_convert_cases [of prot rnd x] by auto

theorem share_convert_modulus_ceiling_witness:
  "M example_large > 2 ^ 64 \<and>
   share_convert example_large example_draws example_input = Inl (Exception share_convert_msg) \<and>
   M example_even \<le> 2 ^ 64 \<and>
   share_convert example_even example_draws example_input \<noteq> Inl (Exception share_convert_msg)"
  using share_convert_modulus_ceiling [of example_large example_draws example_input]
        share_convert_modulus_ceiling [of example_even example_draws example_input]
  by (simp add: example_large_def example_even_def)

subsection \<open>The bit-extraction family on private operands\<close>

text \<open>
  Claim C2, as stated, fails: under an even modulus \<^verbatim>\<open>msb\<close> raises the configuration
  error before it reaches \<^verbatim>\<open>lsb\<close>.
\<close>

theorem msb_under_even_modulus_counterexample:
  "msb example_even example_draws example_input \<noteq> Inl NotImplementedError"
  by (simp add: msb_def example_even_def)

text \<open>
  Claim C2, amended. On every private operand \<^verbatim>\<open>lsb\<close> raises \<^verbatim>\<open>NotImplementedError\<close>, since
  \<^verbatim>\<open>_lsb_private\<close> always calls \<^verbatim>\<open>private_compare\<close>; and whenever the modulus is odd so do
  \<^verbatim>\<open>msb\<close>, \<^verbatim>\<open>negative\<close>, \<^verbatim>\<open>non_negative\<close>, \<^verbatim>\<open>relu\<close>, \<^verbatim>\<open>less\<close>, \<^verbatim>\<open>less_equal\<close>, \<^verbatim>\<open>greater\<close> and
  \<^verbatim>\<open>greater_equal\<close> on private operands. Under an even modulus the guard of \<^verbatim>\<open>msb\<close> raises
  the configuration error instead.
\<close>

theorem private_lsb_family_unimplemented:
  "lsb prot rnd (PondPrivateTensor s0 s1 sc) = Inl NotImplementedError \<and>
   (M prot mod 2 = 1 \<longrightarrow>
      msb prot rnd (PondPrivateTensor s0 s1 sc) = Inl NotImplementedError \<and>
      negative prot rnd (PondPrivateTensor s0 s1 sc) = Inl NotImplementedError \<and>
      non_negative prot rnd (PondPrivateTensor s0 s1 sc) = Inl NotImplementedError \<and>
      relu prot rnd (PondPrivateTensor s0 s1 sc) = Inl NotImplementedError \<and>
      less prot rnd (PondPrivateTensor s0 s1 sc) (PondPrivateTensor t0 t1 sc')
        = Inl NotImplementedError \<and>
      less_equal prot rnd (PondPrivateTensor s0 s1 sc) (PondPrivateTensor t0 t1 sc')
        = Inl NotImplementedError \<and>
      greater prot rnd (PondPrivateTensor s0 s1 sc) (PondPrivateTensor t0 t1 sc')
        = Inl NotImplementedError \<and>
      greater_equal prot rnd (PondPrivateTensor s0 s1 sc) (PondPrivateTensor t0 t1 sc')
        = Inl NotImplementedError) \<and>
   (M prot mod 2 \<noteq> 1 \<longrightarrow>
      msb prot rnd (PondPrivateTensor s0 s1 sc) = Inl (Exception odd_cardinality_msg))"
  by (simp add: lsb_private_raises msb_odd_private msb_even negative_private less_private
      greater_private non_negative_def relu_def less_equal_def greater_equal_def bind_err_Inl)

theorem private_lsb_family_unimplemented_witness:
  "M example_odd mod 2 = 1 \<and>
   lsb example_odd example_draws example_a = Inl NotImplementedError \<and>
   msb example_odd example_draws example_a = Inl NotImplementedError \<and>
   non_negative example_odd example_draws example_a = Inl NotImplementedError \<and>
   relu example_odd example_draws example_a = Inl NotImplementedError \<and>
   less example_odd example_draws example_a example_b = Inl NotImplementedError \<and>
   greater_equal example_odd example_draws example_a example_b = Inl NotImplementedError \<and>
   M example_even mod 2 \<noteq> 1 \<and>
   msb example_even example_draws example_input = Inl (Exception odd_cardinality_msg)"
  using private_lsb_family_unimplemented [of example_odd example_draws
      "\<lparr>shape = [1], val = [3], modulus = 2 ^ 64 - 1\<rparr>"
      "\<lparr>shape = [1], val = [2 ^ 64 - 4], modulus = 2 ^ 64 - 1\<rparr>" False
      "\<lparr>shape = [1], val = [9], modulus = 2 ^ 64 - 1\<rparr>"
      "\<lparr>shape = [1], val = [2 ^ 64 - 9], modulus = 2 ^ 64 - 1\<rparr>" False]
    private_lsb_family_unimplemented [of example_even example_draws
      "\<lparr>shape = [2], val = [0, 0], modulus = 2 ^ 64\<rparr>"
      "\<lparr>shape = [2], val = [5, 5], modulus = 2 ^ 64\<rparr>" False
      "\<lparr>shape = [2], val = [0, 0], modulus = 2 ^ 64\<rparr>"
      "\<lparr>shape = [2], val = [5, 5], modulus = 2 ^ 64\<rparr>" False]
  by (simp add: example_odd_def example_even_def example_a_def example_b_def example_input_def)

subsection \<open>The parity guard\<close>

text \<open>
  Claim C6, as stated, fails for \<^verbatim>\<open>lsb\<close>: it has no parity test, and under an even modulus
  a private operand ends in \<^verbatim>\<open>NotImplementedError\<close>, not in the configuration error.
\<close>

theorem lsb_under_even_modulus_counterexample:
  "M example_even mod 2 \<noteq> 1 \<and>
   lsb example_even example_draws example_input \<noteq> Inl (Exception odd_cardinality_msg)"
  by (simp add: example_even_def example_input_def lsb_private_raises)

text \<open>
  Claim C6, amended. Under an even modulus \<^verbatim>\<open>msb\<close> raises the configuration error on every
  input, as its first step; under an odd modulus \<^verbatim>\<open>msb(x)\<close> is \<^verbatim>\<open>lsb(x * 2)\<close>. \<^verbatim>\<open>lsb\<close> makes
  no test of the modulus: whatever the modulus, it raises \<^verbatim>\<open>NotImplementedError\<close> on a
  private operand.
\<close>

theorem msb_guard_on_even_modulus:
  "(M prot mod 2 \<noteq> 1 \<longrightarrow> msb prot rnd x = Inl (Exception odd_cardinality_msg)) \<and>
   (M prot mod 2 = 1 \<longrightarrow>
      msb prot rnd x = lsb prot rnd (pond_mul prot no_draws x (lift_int prot x 2))) \<and>
   lsb prot rnd (PondPrivateTensor s0 s1 sc) = Inl NotImplementedError"
  by (simp add: msb_def lsb_private_raises)

theorem msb_guard_on_even_modulus_witness:
  "M example_even mod 2 \<noteq> 1 \<and>
   msb example_even example_draws example_input = Inl (Exception odd_cardinality_msg) \<and>
   M example_odd mod 2 = 1 \<and>
   msb example_odd example_draws example_a
     = lsb example_odd example_draws
         (pond_mul example_odd no_draws example_a (lift_int example_odd example_a 2))"
  using msb_guard_on_even_modulus [of example_even example_draws example_input]
        msb_guard_on_even_modulus [of example_odd example_draws example_a]
  by (simp add: example_even_def example_odd_def)

subsection \<open>Comparisons\<close>

text \<open>
  Claim C4, as stated, fails: on sharings of 0 and 1 under an odd modulus \<^verbatim>\<open>less\<close> returns no
  value to reconstruct, it raises.
\<close>

theorem less_counterexample:
  "plaintext example_a = [0] \<and> plaintext example_b = [1] \<and>
   less example_odd example_draws example_a example_b = Inl NotImplementedError"
  using less_private [of example_odd example_draws]
  by (simp add: plaintext_def example_a_def example_b_def example_odd_def tensor_add_def)

text \<open>
  Claim C4, amended. \<^verbatim>\<open>less(x, y)\<close> is \<^verbatim>\<open>negative(x - y)\<close>, \<^verbatim>\<open>greater(x, y)\<close> is
  \<^verbatim>\<open>negative(y - x)\<close>, \<^verbatim>\<open>less_equal\<close> is \<^verbatim>\<open>bitwise_not\<close> of \<^verbatim>\<open>greater\<close> and \<^verbatim>\<open>greater_equal\<close> is
  \<^verbatim>\<open>bitwise_not\<close> of \<^verbatim>\<open>less\<close>; on private operands of one encoding each of the four raises
  (\<^verbatim>\<open>NotImplementedError\<close> under an odd modulus, the configuration error otherwise), so none
  returns a value.
\<close>

theorem comparisons_decompose:
  "less prot rnd x y = negative prot rnd (pond_sub x y) \<and>
   greater prot rnd x y = negative prot rnd (pond_sub y x) \<and>
   less_equal prot rnd x y = bind_err (greater prot rnd x y) (bitwise_not prot) \<and>
   greater_equal prot rnd x y = bind_err (less prot rnd x y) (bitwise_not prot) \<and>
   less prot rnd (PondPrivateTensor s0 s1 sc) (PondPrivateTensor t0 t1 sc)
     = Inl (if M prot mod 2 = 1 then NotImplementedError else Exception odd_cardinality_msg) \<and>
   greater prot rnd (PondPrivateTensor s0 s1 sc) (PondPrivateTensor t0 t1 sc)
     = Inl (if M prot mod 2 = 1 then NotImplementedError else Exception odd_cardinality_msg) \<and>
   less_equal prot rnd (PondPrivateTensor s0 s1 sc) (PondPrivateTensor t0 t1 sc)
     = Inl (if M prot mod 2 = 1 then NotImplementedError else Exception odd_cardinality_msg) \<and>
   greater_equal prot rnd (PondPrivateTensor s0 s1 sc) (PondPrivateTensor t0 t1 sc)
     = Inl (if M prot mod 2 = 1 then NotImplementedError else Exception odd_cardinality_msg)"
  by (simp add: less_def greater_def less_equal_def greater_equal_def less_private [unfolded less_def]
      greater_private [unfolded greater_def] bind_err_Inl)

theorem comparisons_decompose_witness:
  "less example_even example_draws example_input example_input
     = Inl (Exception odd_cardinality_msg) \<and>
   greater_equal example_odd example_draws example_a example_b = Inl NotImplementedError"
proof -
  note even = comparisons_decompose [of example_even example_draws example_input example_input
      "\<lparr>shape = [2], val = [0, 0], modulus = 2 ^ 64\<rparr>"
      "\<lparr>shape = [2], val = [5, 5], modulus = 2 ^ 64\<rparr>" False
      "\<lparr>shape = [2], val = [0, 0], modulus = 2 ^ 64\<rparr>"
      "\<lparr>shape = [2], val = [5, 5], modulus = 2 ^ 64\<rparr>"]
  note odd = comparisons_decompose [of example_odd example_draws example_a example_b
      "\<lparr>shape = [1], val = [3], modulus = 2 ^ 64 - 1\<rparr>"
      "\<lparr>shape = [1], val = [2 ^ 64 - 4], modulus = 2 ^ 64 - 1\<rparr>" False
      "\<lparr>shape = [1], val = [9], modulus = 2 ^ 64 - 1\<rparr>"
      "\<lparr>shape = [1], val = [2 ^ 64 - 9], modulus = 2 ^ 64 - 1\<rparr>"]
  have "less example_even example_draws example_input example_input
          = Inl (Exception odd_cardinality_msg)"
    using even [THEN conjunct2, THEN conjunct2, THEN conjunct2, THEN conjunct2, THEN conjunct1]
    by (simp add: example_input_def example_even_def)
  moreover have "greater_equal example_odd example_draws example_a example_b
          = Inl NotImplementedError"
    using odd [THEN conjunct2, THEN conjunct2, THEN conjunct2, THEN conjunct2, THEN conjunct2,
               THEN conjunct2, THEN conjunct2]
    by (simp add: example_a_def example_b_def example_odd_def)
  ultimately show ?thesis by simp
qed

section \<open>Values\<close>

subsection \<open>Entries of a sharing\<close>

lemma wrap_entry:
  fixes m s a :: int
  assumes "0 < m" "0 \<le> s" "s < m" "0 \<le> a" "a < m"
  shows "a + (s - a) mod m = s + (if a + (s - a) mod m \<ge> m then 1 else 0) * m"
proof (cases "a \<le> s")
  case True
  with assms have "(s - a) mod m = s - a" by simp
  with assms True show ?thesis by simp
next
  case False
  with assms have "(s - a) mod m = s - a + m"
    by (smt (verit) mod_add_self2 mod_pos_pos_trivial)
  with assms False show ?thesis by simp
qed

lemma share_entry:
  fixes m s r :: int
  shows "(r mod m + (s - r mod m) mod m) mod m = s mod m"
  by (simp add: mod_simps)

lemma pond_share_plaintext:
  assumes "well_shaped s"
  shows "plaintext (case pond_share m g s of (a, b) \<Rightarrow> PondPrivateTensor a b sc)
           = map (\<lambda>v. v mod m) (val s)"
  using assms
  by (auto simp: plaintext_def pond_share_def Let_def sample_uniform_def well_shaped_def
      tensor_add_def list_eq_iff_nth_eq share_entry)

lemma share_with_wrap_entries:
  assumes "0 < m" "well_shaped sample" "list_all (\<lambda>v. 0 \<le> v \<and> v < m) (val sample)"
    "share_with_wrap prot g sample m = (a, b, kappa)" "M prot = m"
  shows "map2 (+) (val a) (val b) = map2 (\<lambda>s k. s + k * m) (val sample) (val kappa)"
    and "length (val a) = length (val sample)" and "length (val b) = length (val sample)"
    and "length (val kappa) = length (val sample)"
proof -
  let ?n = "length (val sample)"
  have n: "prod_list (shape sample) = ?n" using assms(2) by (simp add: well_shaped_def)
  have a: "val a = map (\<lambda>i. g i mod m) [0..<?n]"
    using assms(4,5) n by (auto simp: share_with_wrap_def pond_share_def Let_def sample_uniform_def)
  have b: "val b = map2 (\<lambda>s r. (s - r) mod m) (val sample) (val a)"
    using assms(4,5) by (auto simp: share_with_wrap_def pond_share_def Let_def)
  have k: "val kappa = map2 (\<lambda>a b. if a + b \<ge> m then 1 else 0) (val a) (val b)"
    using assms(4,5) by (auto simp: share_with_wrap_def pond_share_def Let_def compute_wrap_def)
  show la: "length (val a) = ?n" by (simp add: a)
  show lb: "length (val b) = ?n" by (simp add: b la)
  show lk: "length (val kappa) = ?n" by (simp add: k la lb)
  show "map2 (+) (val a) (val b) = map2 (\<lambda>s k. s + k * m) (val sample) (val kappa)"
  proof (rule nth_equalityI)
    show "length (map2 (+) (val a) (val b)) = length (map2 (\<lambda>s k. s + k * m) (val sample) (val kappa))"
      by (simp add: la lb lk)
  next
    fix i assume "i < length (map2 (+) (val a) (val b))"
    then have i: "i < ?n" by (simp add: la lb)
    have s: "0 \<le> val sample ! i \<and> val sample ! i < m"
      using assms(3) i by (simp add: list_all_length)
    have ai: "val a ! i = g i mod m" using i by (simp add: a)
    have ar: "0 \<le> val a ! i \<and> val a ! i < m" using assms(1) by (simp add: ai)
    have bi: "val b ! i = (val sample ! i - val a ! i) mod m" using i la by (simp add: b)
    have ki: "val kappa ! i = (if val a ! i + val b ! i \<ge> m then 1 else 0)"
      using i la lb by (simp add: k)
    have "val a ! i + val b ! i = val sample ! i + val kappa ! i * m"
      unfolding ki bi using wrap_entry [of m "val sample ! i" "val a ! i"] assms(1) s ar by simp
    then show "map2 (+) (val a) (val b) ! i = map2 (\<lambda>s k. s + k * m) (val sample) (val kappa) ! i"
      using i la lb lk by simp
  qed
qed

subsection \<open>The comparison bit of share conversion\<close>

lemma share_convert_combines:
  assumes "M prot \<le> 2 ^ 64"
  shows "share_convert prot rnd (PondPrivateTensor x0 x1 sx) =
     bind_err (odd_modulus_bitwise_xor prot
                 (share_convert_compared prot (rnd 5) (shape x0))
                 (generate_random_bits prot (shape x0) (rnd 0)))
              (share_convert_finish prot rnd (PondPrivateTensor x0 x1 sx))"
  using assms
  by (simp add: share_convert_def share_convert_finish_def Let_def bind_err_def
      split: prod.splits sum.splits)

lemma share_convert_compared_shares:
  "share_convert_compared prot g sh =
     PondPrivateTensor (sample_uniform (M prot) sh g)
       \<lparr>shape = sh,
        val = map (\<lambda>i. (1 - g i mod M prot) mod M prot) [0..<prod_list sh],
        modulus = M prot\<rparr> False"
proof -
  have "map2 (\<lambda>s r. (s - r) mod M prot) (replicate (prod_list sh) 1)
          (map (\<lambda>i. g i mod M prot) [0..<prod_list sh])
        = map (\<lambda>i. (1 - g i mod M prot) mod M prot) [0..<prod_list sh]"
    by (rule nth_equalityI) simp_all
  then show ?thesis
    by (simp add: share_convert_compared_def pond_share_def Let_def constant_tensor_def
        sample_uniform_def)
qed


text \<open>
  Claim C3. \<^verbatim>\<open>share_convert\<close> never ends in \<^verbatim>\<open>NotImplementedError\<close>: it does not call
  \<^verbatim>\<open>private_compare\<close>. Under a modulus of at most \<open>2^64\<close>, on a private operand, it is the
  exclusive-or of line 174 applied to \<^verbatim>\<open>compared\<close> and the bitmask, followed by the rest of
  its body; and \<^verbatim>\<open>compared\<close> is built from the operand's shape and its own draws alone
  (neither the operand's shares nor the bitmask enter it): its first share is the fresh
  uniform sample, its second share is 1 minus that sample in the ring, and in a ring with
  more than one element it reconstructs to 1 in every entry.
\<close>

theorem share_convert_never_unimplemented:
  "share_convert prot rnd x \<noteq> Inl NotImplementedError \<and>
   (M prot \<le> 2 ^ 64 \<longrightarrow>
      share_convert prot rnd (PondPrivateTensor x0 x1 sx) =
        bind_err (odd_modulus_bitwise_xor prot
                    (share_convert_compared prot (rnd 5) (shape x0))
                    (generate_random_bits prot (shape x0) (rnd 0)))
                 (share_convert_finish prot rnd (PondPrivateTensor x0 x1 sx))) \<and>
   share_convert_compared prot g sh =
     PondPrivateTensor (sample_uniform (M prot) sh g)
       \<lparr>shape = sh,
        val = map (\<lambda>i. (1 - g i mod M prot) mod M prot) [0..<prod_list sh],
        modulus = M prot\<rparr> False \<and>
   (1 < M prot \<longrightarrow>
      plaintext (share_convert_compared prot g sh) = replicate (prod_list sh) 1)"
proof -
  have a: "share_convert prot rnd x \<noteq> Inl NotImplementedError"
    using share_convert_cases [of prot rnd x] by auto
  have w: "well_shaped (constant_tensor (M prot) sh 1)"
    by (simp add: well_shaped_def constant_tensor_def)
  have "plaintext (share_convert_compared prot g sh)
          = map (\<lambda>v. v mod M prot) (val (constant_tensor (M prot) sh 1))"
    using pond_share_plaintext [OF w, where m = "M prot" and g = g and sc = False]
    by (simp add: share_convert_compared_def Let_def)
  then have c: "1 < M prot \<longrightarrow>
      plaintext (share_convert_compared prot g sh) = replicate (prod_list sh) 1"
    by (simp add: constant_tensor_def)
  from a c share_convert_combines [of prot rnd x0 x1 sx] share_convert_compared_shares [of prot g sh]
  show ?thesis by blast
qed

theorem share_convert_never_unimplemented_witness:
  "M example_even \<le> 2 ^ 64 \<and> 1 < M example_even \<and>
   share_convert example_even example_draws example_input \<noteq> Inl NotImplementedError \<and>
   share_convert example_even example_draws example_input =
     bind_err (odd_modulus_bitwise_xor example_even
                 (share_convert_compared example_even (example_draws 5) [2])
                 (generate_random_bits example_even [2] (example_draws 0)))
              (share_convert_finish example_even example_draws example_input) \<and>
   share_convert_compared example_even example_share_draws [2] =
     PondPrivateTensor \<lparr>shape = [2], val = [9, 10], modulus = 2 ^ 64\<rparr>
                       \<lparr>shape = [2], val = [2 ^ 64 - 8, 2 ^ 64 - 9], modulus = 2 ^ 64\<rparr> False \<and>
   plaintext (share_convert_compared example_even example_share_draws [2]) = [1, 1]"
proof -
  note t = share_convert_never_unimplemented
      [where prot = example_even and rnd = example_draws and x = example_input
         and ?x0.0 = "\<lparr>shape = [2], val = [0, 0], modulus = 2 ^ 64\<rparr>"
         and ?x1.0 = "\<lparr>shape = [2], val = [5, 5], modulus = 2 ^ 64\<rparr>" and sx = False
         and g = example_share_draws and sh = "[2]"]
  have h: "M example_even \<le> 2 ^ 64" "1 < M example_even" by (simp_all add: example_even_def)
  have u: "[0..<2] = [0, 1]" by (simp add: upt_rec)
  have c1: "share_convert example_even example_draws example_input \<noteq> Inl NotImplementedError"
    using t by blast
  have c2: "share_convert example_even example_draws example_input =
     bind_err (odd_modulus_bitwise_xor example_even
                 (share_convert_compared example_even (example_draws 5) [2])
                 (generate_random_bits example_even [2] (example_draws 0)))
              (share_convert_finish example_even example_draws example_input)"
    using t [THEN conjunct2, THEN conjunct1] h(1) by (simp add: example_input_def)
  have c3: "share_convert_compared example_even example_share_draws [2] =
     PondPrivateTensor \<lparr>shape = [2], val = [9, 10], modulus = 2 ^ 64\<rparr>
                       \<lparr>shape = [2], val = [2 ^ 64 - 8, 2 ^ 64 - 9], modulus = 2 ^ 64\<rparr> False"
    using t [THEN conjunct2, THEN conjunct2, THEN conjunct1]
    by (simp add: example_even_def example_share_draws_def sample_uniform_def u)
  have c4: "plaintext (share_convert_compared example_even example_share_draws [2]) = [1, 1]"
    using t [THEN conjunct2, THEN conjunct2, THEN conjunct2] h(2)
    by (simp add: numeral_2_eq_2)
  from h c1 c2 c3 c4 show ?thesis by blast
qed

subsection \<open>Sharing with the wrap count\<close>

text \<open>
  Claim C9. For a modulus \<open>M > 0\<close> and a sample whose entries are elements of the ring of
  \<open>M\<close>, the triple returned by \<^verbatim>\<open>share_with_wrap\<close> called with that modulus (as line 132
  does) satisfies, entry by entry and over the integers,
  \<open>share_a + share_b = sample + wrap_count * M\<close>.
\<close>

theorem share_with_wrap_exact:
  assumes "0 < M prot" "well_shaped sample" "in_ring (M prot) sample"
  shows "case share_with_wrap prot g sample (M prot) of
           (share_a, share_b, wrap_count) \<Rightarrow>
             length (val share_a) = length (val sample) \<and>
             length (val share_b) = length (val sample) \<and>
             length (val wrap_count) = length (val sample) \<and>
             map2 (+) (val share_a) (val share_b)
               = map2 (\<lambda>s k. s + k * M prot) (val sample) (val wrap_count)"
proof -
  obtain a b kappa where r: "share_with_wrap prot g sample (M prot) = (a, b, kappa)"
    by (metis prod_cases3)
  have ring: "list_all (\<lambda>v. 0 \<le> v \<and> v < M prot) (val sample)"
    using assms(3) by (simp add: in_ring_def)
  from share_with_wrap_entries [OF assms(1,2) ring r refl] show ?thesis
    by (simp add: r)
qed

theorem share_with_wrap_exact_witness:
  "0 < M example_even \<and> well_shaped example_sample \<and> in_ring (M example_even) example_sample \<and>
   (case share_with_wrap example_even example_share_draws example_sample (M example_even) of
      (share_a, share_b, wrap_count) \<Rightarrow>
        map2 (+) (val share_a) (val share_b)
          = map2 (\<lambda>s k. s + k * M example_even) (val example_sample) (val wrap_count))"
proof -
  have h1: "0 < M example_even" by (simp add: example_even_def)
  have h2: "well_shaped example_sample" by (simp add: well_shaped_def example_sample_def)
  have h3: "in_ring (M example_even) example_sample"
    by (simp add: in_ring_def example_sample_def example_even_def)
  from share_with_wrap_exact [OF h1 h2 h3, of example_share_draws] h1 h2 h3
  show ?thesis by (auto split: prod.splits)
qed

subsection \<open>The round trip of share conversion\<close>

text \<open>
  Claim C1 does not hold of the code. Under the even modulus \<open>2^64\<close>, on a sharing of the
  plaintext \<open>[5, 5]\<close>, with a mask that wraps on entry 0 and does not on entry 1, the
  output of \<^verbatim>\<open>share_convert\<close> reconstructs under \<open>2^64 - 1\<close> to \<open>[4, 5]\<close>: entry 0 is off by
  one, because the comparison bit is the constant 1 of line 166 where the commented-out
  call of line 165 would have given 0.
\<close>

theorem share_convert_round_trip_fails:
  "plaintext example_input = [5, 5] \<and>
   share_convert example_even example_draws example_input =
     Inr (PondPrivateTensor \<lparr>shape = [2], val = [1, 1], modulus = 2 ^ 64 - 1\<rparr>
                            \<lparr>shape = [2], val = [3, 4], modulus = 2 ^ 64 - 1\<rparr> False) \<and>
   plaintext (PondPrivateTensor \<lparr>shape = [2], val = [1, 1], modulus = 2 ^ 64 - 1\<rparr>
                                \<lparr>shape = [2], val = [3, 4], modulus = 2 ^ 64 - 1\<rparr> False)
     = [4, 5]"
  by code_simp

subsection \<open>The boolean operators on sharings of bits\<close>

lemma bit_mod:
  fixes m v :: int
  assumes "2 \<le> m" "v = 0 \<or> v = 1"
  shows "v mod m = v" "(1 - v) mod m = 1 - v"
  using assms by auto

lemma not_entry:
  fixes m a b :: int
  assumes "2 \<le> m" "(a + b) mod m = 0 \<or> (a + b) mod m = 1"
  shows "((1 mod m - a) mod m + (- b) mod m) mod m = 1 - (a + b) mod m"
proof -
  have "((1 mod m - a) mod m + (- b) mod m) mod m = (1 - a + (- b)) mod m"
    by (simp add: mod_simps)
  also have "1 - a + (- b) = 1 - (a + b)" by simp
  also have "(1 - (a + b)) mod m = (1 - (a + b) mod m) mod m"
    by (simp add: mod_simps)
  also have "\<dots> = 1 - (a + b) mod m"
    using bit_mod(2) [OF assms] .
  finally show ?thesis .
qed

lemma bits_product:
  fixes u v :: int
  assumes "u = 0 \<or> u = 1" "v = 0 \<or> v = 1"
  shows "u * v = 0 \<or> u * v = 1" "u + v - u * v = 0 \<or> u + v - u * v = 1"
    "u + v - 2 * (u * v) = 0 \<or> u + v - 2 * (u * v) = 1"
  using assms by auto

lemma and_entry:
  fixes m u v r :: int
  assumes "2 \<le> m" "u = 0 \<or> u = 1" "v = 0 \<or> v = 1"
  shows "(r mod m + (u * v mod m - r mod m) mod m) mod m = u * v"
proof -
  have "(r mod m + (u * v mod m - r mod m) mod m) mod m = (u * v) mod m"
    by (simp add: mod_simps)
  also have "\<dots> = u * v"
    using bit_mod(1) [OF assms(1) bits_product(1) [OF assms(2,3)]] .
  finally show ?thesis .
qed

lemma sum_cong:
  fixes x y w m :: int
  shows "(x + y - w) mod m = (x mod m + y mod m - w) mod m"
  by (metis mod_add_eq mod_diff_left_eq)

lemma or_entry:
  fixes m a0 a1 b0 b1 r u v :: int
  assumes "2 \<le> m" "u = (a0 + a1) mod m" "v = (b0 + b1) mod m"
    "u = 0 \<or> u = 1" "v = 0 \<or> v = 1"
  shows "(((a0 + b0) mod m - r mod m) mod m +
          ((a1 + b1) mod m - (u * v mod m - r mod m) mod m) mod m) mod m = u + v - u * v"
proof -
  have "(((a0 + b0) mod m - r mod m) mod m +
          ((a1 + b1) mod m - (u * v mod m - r mod m) mod m) mod m) mod m
        = ((a0 + b0 - r) + (a1 + b1 - (u * v - r))) mod m"
    by (simp add: mod_simps)
  also have "(a0 + b0 - r) + (a1 + b1 - (u * v - r)) = (a0 + a1) + (b0 + b1) - u * v"
    by simp
  also have "((a0 + a1) + (b0 + b1) - u * v) mod m = (u + v - u * v) mod m"
    using sum_cong [of "a0 + a1" "b0 + b1" "u * v" m] by (simp add: assms(2,3))
  also have "\<dots> = u + v - u * v"
    using bit_mod(1) [OF assms(1) bits_product(2) [OF assms(4,5)]] .
  finally show ?thesis .
qed

lemma xor_entry:
  fixes m a0 a1 b0 b1 r u v :: int
  assumes "2 \<le> m" "u = (a0 + a1) mod m" "v = (b0 + b1) mod m"
    "u = 0 \<or> u = 1" "v = 0 \<or> v = 1"
  shows "(((a0 + b0) mod m - r mod m * (2 mod m) mod m) mod m +
          ((a1 + b1) mod m - (u * v mod m - r mod m) mod m * (2 mod m) mod m) mod m) mod m
         = u + v - 2 * (u * v)"
proof -
  have "(((a0 + b0) mod m - r mod m * (2 mod m) mod m) mod m +
          ((a1 + b1) mod m - (u * v mod m - r mod m) mod m * (2 mod m) mod m) mod m) mod m
        = ((a0 + b0 - r * 2) + (a1 + b1 - (u * v - r) * 2)) mod m"
    by (simp add: mod_simps)
  also have "(a0 + b0 - r * 2) + (a1 + b1 - (u * v - r) * 2)
             = (a0 + a1) + (b0 + b1) - 2 * (u * v)"
    by (simp add: algebra_simps)
  also have "((a0 + a1) + (b0 + b1) - 2 * (u * v)) mod m = (u + v - 2 * (u * v)) mod m"
    using sum_cong [of "a0 + a1" "b0 + b1" "2 * (u * v)" m] by (simp add: assms(2,3))
  also have "\<dots> = u + v - 2 * (u * v)"
    using bit_mod(1) [OF assms(1) bits_product(3) [OF assms(4,5)]] .
  finally show ?thesis .
qed


lemma tensor_op_fields:
  "val (tensor_add x y) = map2 (\<lambda>a b. (a + b) mod modulus x) (val x) (val y)"
  "val (tensor_sub x y) = map2 (\<lambda>a b. (a - b) mod modulus x) (val x) (val y)"
  "val (tensor_mul x y) = map2 (\<lambda>a b. (a * b) mod modulus x) (val x) (val y)"
  "val (tensor_neg x) = map (\<lambda>a. (- a) mod modulus x) (val x)"
  "modulus (tensor_add x y) = modulus x" "modulus (tensor_sub x y) = modulus x"
  "modulus (tensor_mul x y) = modulus x" "modulus (tensor_neg x) = modulus x"
  "shape (tensor_add x y) = shape x" "shape (tensor_sub x y) = shape x"
  "shape (tensor_mul x y) = shape x" "shape (tensor_neg x) = shape x"
  by (simp_all add: tensor_add_def tensor_sub_def tensor_mul_def tensor_neg_def)

lemma pond_ops_private:
  "pond_add (PondPrivateTensor x0 x1 sx) (PondPrivateTensor y0 y1 sy)
     = PondPrivateTensor (tensor_add x0 y0) (tensor_add x1 y1) (sx \<or> sy)"
  "pond_sub (PondPrivateTensor x0 x1 sx) (PondPrivateTensor y0 y1 sy)
     = PondPrivateTensor (tensor_sub x0 y0) (tensor_sub x1 y1) (sx \<or> sy)"
  "pond_sub (PondPublicTensor v0 v1 sx) (PondPrivateTensor y0 y1 sy)
     = PondPrivateTensor (tensor_sub v0 y0) (tensor_neg y1) (sx \<or> sy)"
  "pond_mul prot g (PondPrivateTensor x0 x1 sx) (PondPublicTensor v0 v1 sy)
     = PondPrivateTensor (tensor_mul x0 v0) (tensor_mul x1 v1) (sx \<or> sy)"
  "pond_mul prot g (PondPrivateTensor x0 x1 sx) (PondPrivateTensor y0 y1 sy)
     = (case pond_share (M prot) g (tensor_mul (tensor_add x0 x1) (tensor_add y0 y1)) of
          (z0, z1) \<Rightarrow> PondPrivateTensor z0 z1 (sx \<or> sy))"
  "lift_int prot (PondPrivateTensor x0 x1 sx) c
     = PondPublicTensor (constant_tensor (M prot) (shape x0) (c mod M prot))
                        (constant_tensor (M prot) (shape x0) (c mod M prot)) sx"
  by (simp_all add: pond_add_def pond_sub_def pond_mul_def lift_int_def Let_def)

lemma encodes_bits_private:
  "encodes_bits prot x \<Longrightarrow> \<exists>x0 x1. x = PondPrivateTensor x0 x1 False"
  by (cases x) (simp_all add: encodes_bits_def)

lemma encodes_bitsD:
  assumes "encodes_bits prot (PondPrivateTensor x0 x1 s)"
  shows "modulus x0 = M prot" "modulus x1 = M prot"
    "length (val x0) = prod_list (shape x0)" "length (val x1) = prod_list (shape x0)"
    "\<And>i. i < prod_list (shape x0) \<Longrightarrow>
        (val x0 ! i + val x1 ! i) mod M prot = 0 \<or> (val x0 ! i + val x1 ! i) mod M prot = 1"
proof -
  from assms show m0: "modulus x0 = M prot" by (simp add: encodes_bits_def)
  from assms show "modulus x1 = M prot" by (simp add: encodes_bits_def)
  from assms show l0: "length (val x0) = prod_list (shape x0)"
    by (simp add: encodes_bits_def well_shaped_def)
  from assms show l1: "length (val x1) = prod_list (shape x0)"
    by (simp add: encodes_bits_def well_shaped_def)
  from assms have b: "list_all (\<lambda>v. v = 0 \<or> v = 1)
      (map2 (\<lambda>a b. (a + b) mod M prot) (val x0) (val x1))"
    by (auto simp add: encodes_bits_def tensor_op_fields)
  fix i assume i: "i < prod_list (shape x0)"
  then have "i < length (map2 (\<lambda>a b. (a + b) mod M prot) (val x0) (val x1))"
    by (simp add: l0 l1)
  with b have "(\<lambda>v. v = 0 \<or> v = 1) (map2 (\<lambda>a b. (a + b) mod M prot) (val x0) (val x1) ! i)"
    unfolding list_all_length by blast
  with i show "(val x0 ! i + val x1 ! i) mod M prot = 0 \<or> (val x0 ! i + val x1 ! i) mod M prot = 1"
    by (simp add: l0 l1)
qed

lemma plaintext_private:
  "plaintext (PondPrivateTensor x0 x1 s) = map2 (\<lambda>a b. (a + b) mod modulus x0) (val x0) (val x1)"
  by (simp add: plaintext_def tensor_op_fields)

lemma constant_tensor_fields:
  "val (constant_tensor m sh c) = replicate (prod_list sh) c"
  "modulus (constant_tensor m sh c) = m" "shape (constant_tensor m sh c) = sh"
  by (simp_all add: constant_tensor_def)

lemma bitwise_not_bits:
  assumes "2 \<le> M prot" "encodes_bits prot (PondPrivateTensor x0 x1 s)"
  shows "\<exists>z. bitwise_not prot (PondPrivateTensor x0 x1 s) = Inr z \<and>
             plaintext z = map (\<lambda>u. 1 - u) (plaintext (PondPrivateTensor x0 x1 s))"
proof -
  note d = encodes_bitsD [OF assms(2)]
  let ?n = "prod_list (shape x0)"
  let ?c = "constant_tensor (M prot) (shape x0) (1 mod M prot)"
  let ?z = "PondPrivateTensor (tensor_sub ?c x0) (tensor_neg x1) s"
  have s: "\<not> s" using assms(2) by (simp add: encodes_bits_def)
  have r: "bitwise_not prot (PondPrivateTensor x0 x1 s) = Inr ?z"
    using s by (simp add: bitwise_not_def pond_ops_private)
  have pz: "plaintext ?z =
      map2 (\<lambda>a b. (a + b) mod M prot)
        (map2 (\<lambda>a b. (a - b) mod M prot) (replicate ?n (1 mod M prot)) (val x0))
        (map (\<lambda>a. (- a) mod M prot) (val x1))"
    by (simp add: plaintext_private tensor_op_fields constant_tensor_fields d(2))
  have px: "plaintext (PondPrivateTensor x0 x1 s)
      = map2 (\<lambda>a b. (a + b) mod M prot) (val x0) (val x1)"
    by (simp add: plaintext_private d(1))
  have "plaintext ?z = map (\<lambda>u. 1 - u) (plaintext (PondPrivateTensor x0 x1 s))"
  proof (rule nth_equalityI)
    show "length (plaintext ?z) = length (map (\<lambda>u. 1 - u) (plaintext (PondPrivateTensor x0 x1 s)))"
      unfolding pz px by (simp add: d(3,4))
  next
    fix i assume "i < length (plaintext ?z)"
    then have i: "i < ?n" unfolding pz by (simp add: d(3,4))
    from not_entry [OF assms(1) d(5) [OF i]] i
    show "plaintext ?z ! i = map (\<lambda>u. 1 - u) (plaintext (PondPrivateTensor x0 x1 s)) ! i"
      unfolding pz px by (simp add: d(3,4))
  qed
  with r show ?thesis by blast
qed

lemma product_shares:
  assumes "encodes_bits prot (PondPrivateTensor x0 x1 s)" "encodes_bits prot (PondPrivateTensor y0 y1 t)"
    "shape y0 = shape x0"
  shows "\<exists>z0 z1. pond_mul prot g (PondPrivateTensor x0 x1 s) (PondPrivateTensor y0 y1 t)
                    = PondPrivateTensor z0 z1 False \<and>
           modulus z0 = M prot \<and> modulus z1 = M prot \<and> shape z0 = shape x0 \<and>
           length (val z0) = prod_list (shape x0) \<and> length (val z1) = prod_list (shape x0) \<and>
           (\<forall>i < prod_list (shape x0).
              val z0 ! i = g i mod M prot \<and>
              val z1 ! i = (((val x0 ! i + val x1 ! i) mod M prot)
                             * ((val y0 ! i + val y1 ! i) mod M prot) mod M prot
                            - g i mod M prot) mod M prot)"
proof -
  note dx = encodes_bitsD [OF assms(1)]
  note dy = encodes_bitsD [OF assms(2), unfolded assms(3)]
  let ?n = "prod_list (shape x0)"
  let ?P = "tensor_mul (tensor_add x0 x1) (tensor_add y0 y1)"
  have st: "\<not> s" "\<not> t" using assms(1,2) by (simp_all add: encodes_bits_def)
  have vP: "val ?P = map2 (\<lambda>a b. a * b mod M prot)
              (map2 (\<lambda>a b. (a + b) mod M prot) (val x0) (val x1))
              (map2 (\<lambda>a b. (a + b) mod M prot) (val y0) (val y1))"
    by (simp add: tensor_op_fields dx(1) dy(1))
  have sP: "shape ?P = shape x0" by (simp add: tensor_op_fields)
  have lP: "length (val ?P) = ?n" unfolding vP by (simp add: dx(3,4) dy(3,4))
  let ?z0 = "sample_uniform (M prot) (shape x0) g"
  let ?z1 = "\<lparr>shape = shape x0,
              val = map2 (\<lambda>s r. (s - r) mod M prot) (val ?P) (val ?z0), modulus = M prot\<rparr>"
  have sh: "pond_share (M prot) g ?P = (?z0, ?z1)"
    by (simp add: pond_share_def Let_def sP)
  have r: "pond_mul prot g (PondPrivateTensor x0 x1 s) (PondPrivateTensor y0 y1 t)
             = PondPrivateTensor ?z0 ?z1 False"
    using st by (simp add: pond_ops_private sh)
  have v0: "val ?z0 = map (\<lambda>i. g i mod M prot) [0..<?n]" by (simp add: sample_uniform_def)
  have f0: "modulus ?z0 = M prot" "shape ?z0 = shape x0" "length (val ?z0) = ?n"
    by (simp_all add: sample_uniform_def)
  have l1: "length (val ?z1) = ?n" by (simp add: lP f0(3))
  have e: "\<forall>i < ?n. val ?z0 ! i = g i mod M prot \<and>
              val ?z1 ! i = (((val x0 ! i + val x1 ! i) mod M prot)
                             * ((val y0 ! i + val y1 ! i) mod M prot) mod M prot
                            - g i mod M prot) mod M prot"
  proof (intro allI impI)
    fix i assume i: "i < ?n"
    have a: "val ?z0 ! i = g i mod M prot" using i by (simp add: v0)
    have "val ?P ! i = ((val x0 ! i + val x1 ! i) mod M prot)
                         * ((val y0 ! i + val y1 ! i) mod M prot) mod M prot"
      unfolding vP using i by (simp add: dx(3,4) dy(3,4))
    then have "val ?z1 ! i = (((val x0 ! i + val x1 ! i) mod M prot)
                             * ((val y0 ! i + val y1 ! i) mod M prot) mod M prot
                            - g i mod M prot) mod M prot"
      using i lP f0(3) a by simp
    with a show "val ?z0 ! i = g i mod M prot \<and>
              val ?z1 ! i = (((val x0 ! i + val x1 ! i) mod M prot)
                             * ((val y0 ! i + val y1 ! i) mod M prot) mod M prot
                            - g i mod M prot) mod M prot" by blast
  qed
  have "modulus ?z1 = M prot" by simp
  with r f0 l1 e show ?thesis by blast
qed

lemma binary_operators_bits:
  assumes m: "2 \<le> M prot"
    and ex: "encodes_bits prot (PondPrivateTensor x0 x1 s)"
    and ey: "encodes_bits prot (PondPrivateTensor y0 y1 t)"
    and sh: "shape y0 = shape x0"
  defines "px \<equiv> plaintext (PondPrivateTensor x0 x1 s)"
    and "py \<equiv> plaintext (PondPrivateTensor y0 y1 t)"
  shows "\<exists>z. bitwise_and prot g (PondPrivateTensor x0 x1 s) (PondPrivateTensor y0 y1 t) = Inr z \<and>
             plaintext z = map2 (\<lambda>u v. u * v) px py"
    and "\<exists>z. bitwise_or prot g (PondPrivateTensor x0 x1 s) (PondPrivateTensor y0 y1 t) = Inr z \<and>
             plaintext z = map2 (\<lambda>u v. u + v - u * v) px py"
    and "\<exists>z. bitwise_xor prot g (PondPrivateTensor x0 x1 s) (PondPrivateTensor y0 y1 t) = Inr z \<and>
             plaintext z = map2 (\<lambda>u v. u + v - 2 * (u * v)) px py"
proof -
  note dx = encodes_bitsD [OF ex]
  note dy = encodes_bitsD [OF ey, unfolded sh]
  let ?n = "prod_list (shape x0)"
  let ?X = "PondPrivateTensor x0 x1 s" and ?Y = "PondPrivateTensor y0 y1 t"
  have st: "\<not> s" "\<not> t" using ex ey by (simp_all add: encodes_bits_def)
  obtain z0 z1 where z: "pond_mul prot g ?X ?Y = PondPrivateTensor z0 z1 False"
    and mz: "modulus z0 = M prot" "modulus z1 = M prot" and sz: "shape z0 = shape x0"
    and lz: "length (val z0) = ?n" "length (val z1) = ?n"
    and ez: "\<forall>i < ?n.
              val z0 ! i = g i mod M prot \<and>
              val z1 ! i = (((val x0 ! i + val x1 ! i) mod M prot)
                             * ((val y0 ! i + val y1 ! i) mod M prot) mod M prot
                            - g i mod M prot) mod M prot"
    using product_shares [OF ex ey sh, of g] by blast
  have px: "px = map2 (\<lambda>a b. (a + b) mod M prot) (val x0) (val x1)"
    by (simp add: px_def plaintext_private dx(1))
  have py: "py = map2 (\<lambda>a b. (a + b) mod M prot) (val y0) (val y1)"
    by (simp add: py_def plaintext_private dy(1))
  have lp: "length px = ?n" "length py = ?n" by (simp_all add: px py dx(3,4) dy(3,4))
  have pxi: "px ! i = (val x0 ! i + val x1 ! i) mod M prot" if "i < ?n" for i
    using that by (simp add: px dx(3,4))
  have pyi: "py ! i = (val y0 ! i + val y1 ! i) mod M prot" if "i < ?n" for i
    using that by (simp add: py dy(3,4))
  have xb: "px ! i = 0 \<or> px ! i = 1" if "i < ?n" for i using dx(5) [OF that] pxi [OF that] by simp
  have yb: "py ! i = 0 \<or> py ! i = 1" if "i < ?n" for i using dy(5) [OF that] pyi [OF that] by simp

  have ra: "bitwise_and prot g ?X ?Y = Inr (PondPrivateTensor z0 z1 False)"
    using st z by (simp add: bitwise_and_def)
  have pa: "plaintext (PondPrivateTensor z0 z1 False) = map2 (\<lambda>u v. u * v) px py"
  proof (rule nth_equalityI)
    show "length (plaintext (PondPrivateTensor z0 z1 False)) = length (map2 (\<lambda>u v. u * v) px py)"
      by (simp add: plaintext_private lz lp)
  next
    fix i assume "i < length (plaintext (PondPrivateTensor z0 z1 False))"
    then have i: "i < ?n" by (simp add: plaintext_private lz)
    from ez i have e: "val z0 ! i = g i mod M prot"
      "val z1 ! i = (px ! i * py ! i mod M prot - g i mod M prot) mod M prot"
      by (simp_all add: pxi pyi)
    have "(val z0 ! i + val z1 ! i) mod M prot = px ! i * py ! i"
      unfolding e using and_entry [OF m xb [OF i] yb [OF i]] .
    then show "plaintext (PondPrivateTensor z0 z1 False) ! i = map2 (\<lambda>u v. u * v) px py ! i"
      using i by (simp add: plaintext_private lz lp mz)
  qed
  from ra pa show "\<exists>z. bitwise_and prot g ?X ?Y = Inr z \<and> plaintext z = map2 (\<lambda>u v. u * v) px py"
    by blast

  let ?o = "PondPrivateTensor (tensor_sub (tensor_add x0 y0) z0) (tensor_sub (tensor_add x1 y1) z1) False"
  have ro: "bitwise_or prot g ?X ?Y = Inr ?o"
    using st z by (simp add: bitwise_or_def bitwise_and_def bind_err_def pond_ops_private)
  have vo: "plaintext ?o = map2 (\<lambda>a b. (a + b) mod M prot)
      (map2 (\<lambda>a b. (a - b) mod M prot) (map2 (\<lambda>a b. (a + b) mod M prot) (val x0) (val y0)) (val z0))
      (map2 (\<lambda>a b. (a - b) mod M prot) (map2 (\<lambda>a b. (a + b) mod M prot) (val x1) (val y1)) (val z1))"
    by (simp add: plaintext_private tensor_op_fields dx(1,2))
  have po: "plaintext ?o = map2 (\<lambda>u v. u + v - u * v) px py"
  proof (rule nth_equalityI)
    show "length (plaintext ?o) = length (map2 (\<lambda>u v. u + v - u * v) px py)"
      unfolding vo by (simp add: lz lp dx(3,4) dy(3,4))
  next
    fix i assume "i < length (plaintext ?o)"
    then have i: "i < ?n" unfolding vo by (simp add: lz dx(3,4) dy(3,4))
    from ez i have e: "val z0 ! i = g i mod M prot"
      "val z1 ! i = (px ! i * py ! i mod M prot - g i mod M prot) mod M prot"
      by (simp_all add: pxi pyi)
    have "(((val x0 ! i + val y0 ! i) mod M prot - val z0 ! i) mod M prot +
           ((val x1 ! i + val y1 ! i) mod M prot - val z1 ! i) mod M prot) mod M prot
          = px ! i + py ! i - px ! i * py ! i"
      unfolding e
      using or_entry [OF m pxi [OF i] pyi [OF i] xb [OF i] yb [OF i]] .
    then show "plaintext ?o ! i = map2 (\<lambda>u v. u + v - u * v) px py ! i"
      unfolding vo using i by (simp add: lz lp dx(3,4) dy(3,4))
  qed
  from ro po show "\<exists>z. bitwise_or prot g ?X ?Y = Inr z \<and> plaintext z = map2 (\<lambda>u v. u + v - u * v) px py"
    by blast

  let ?c = "constant_tensor (M prot) (shape x0) (2 mod M prot)"
  let ?x = "PondPrivateTensor (tensor_sub (tensor_add x0 y0) (tensor_mul z0 ?c))
                              (tensor_sub (tensor_add x1 y1) (tensor_mul z1 ?c)) False"
  have rx: "bitwise_xor prot g ?X ?Y = Inr ?x"
    using st z by (simp add: bitwise_xor_def bitwise_and_def bind_err_def pond_ops_private sz)
  have vx: "plaintext ?x = map2 (\<lambda>a b. (a + b) mod M prot)
      (map2 (\<lambda>a b. (a - b) mod M prot) (map2 (\<lambda>a b. (a + b) mod M prot) (val x0) (val y0))
         (map2 (\<lambda>a b. a * b mod M prot) (val z0) (replicate ?n (2 mod M prot))))
      (map2 (\<lambda>a b. (a - b) mod M prot) (map2 (\<lambda>a b. (a + b) mod M prot) (val x1) (val y1))
         (map2 (\<lambda>a b. a * b mod M prot) (val z1) (replicate ?n (2 mod M prot))))"
    by (simp add: plaintext_private tensor_op_fields constant_tensor_fields dx(1,2) mz)
  have pxo: "plaintext ?x = map2 (\<lambda>u v. u + v - 2 * (u * v)) px py"
  proof (rule nth_equalityI)
    show "length (plaintext ?x) = length (map2 (\<lambda>u v. u + v - 2 * (u * v)) px py)"
      unfolding vx by (simp add: lz lp dx(3,4) dy(3,4))
  next
    fix i assume "i < length (plaintext ?x)"
    then have i: "i < ?n" unfolding vx by (simp add: lz dx(3,4) dy(3,4))
    from ez i have e: "val z0 ! i = g i mod M prot"
      "val z1 ! i = (px ! i * py ! i mod M prot - g i mod M prot) mod M prot"
      by (simp_all add: pxi pyi)
    have "(((val x0 ! i + val y0 ! i) mod M prot - val z0 ! i * (2 mod M prot) mod M prot) mod M prot +
           ((val x1 ! i + val y1 ! i) mod M prot - val z1 ! i * (2 mod M prot) mod M prot) mod M prot)
            mod M prot
          = px ! i + py ! i - 2 * (px ! i * py ! i)"
      unfolding e
      using xor_entry [OF m pxi [OF i] pyi [OF i] xb [OF i] yb [OF i]] .
    then show "plaintext ?x ! i = map2 (\<lambda>u v. u + v - 2 * (u * v)) px py ! i"
      unfolding vx using i by (simp add: lz lp dx(3,4) dy(3,4))
  qed
  from rx pxo
  show "\<exists>z. bitwise_xor prot g ?X ?Y = Inr z \<and> plaintext z = map2 (\<lambda>u v. u + v - 2 * (u * v)) px py"
    by blast
qed

text \<open>
  Claim C5. For unscaled private values \<open>x\<close> and \<open>y\<close> of one shape, in a ring with at least
  two elements, whose entries reconstruct to bits: \<^verbatim>\<open>bitwise_not(x)\<close> reconstructs to
  \<open>1 - x\<close>, \<^verbatim>\<open>bitwise_and(x, y)\<close> to \<open>x * y\<close>, \<^verbatim>\<open>bitwise_or(x, y)\<close> to \<open>x + y - x * y\<close> and
  \<^verbatim>\<open>bitwise_xor(x, y)\<close> to \<open>x + y - 2 * x * y\<close>, entry by entry; on the four pairs of bits
  these are the truth tables of negation, conjunction, disjunction and exclusive or.
\<close>

theorem boolean_truth_tables:
  assumes "2 \<le> M prot" "encodes_bits prot x" "encodes_bits prot y" "pond_shape y = pond_shape x"
  shows "(\<exists>z. bitwise_not prot x = Inr z \<and> plaintext z = map (\<lambda>u. 1 - u) (plaintext x)) \<and>
         (\<exists>z. bitwise_and prot g x y = Inr z \<and>
               plaintext z = map2 (\<lambda>u v. u * v) (plaintext x) (plaintext y)) \<and>
         (\<exists>z. bitwise_or prot g x y = Inr z \<and>
               plaintext z = map2 (\<lambda>u v. u + v - u * v) (plaintext x) (plaintext y)) \<and>
         (\<exists>z. bitwise_xor prot g x y = Inr z \<and>
               plaintext z = map2 (\<lambda>u v. u + v - 2 * (u * v)) (plaintext x) (plaintext y))"
proof -
  obtain x0 x1 where x: "x = PondPrivateTensor x0 x1 False"
    using encodes_bits_private [OF assms(2)] by blast
  obtain y0 y1 where y: "y = PondPrivateTensor y0 y1 False"
    using encodes_bits_private [OF assms(3)] by blast
  have ex: "encodes_bits prot (PondPrivateTensor x0 x1 False)" using assms(2) by (simp add: x)
  have ey: "encodes_bits prot (PondPrivateTensor y0 y1 False)" using assms(3) by (simp add: y)
  have sh: "shape y0 = shape x0" using assms(4) by (simp add: x y)
  show ?thesis
    unfolding x y
    using bitwise_not_bits [OF assms(1) ex] binary_operators_bits [OF assms(1) ex ey sh, of g]
    by blast
qed

theorem boolean_truth_tables_witness:
  "2 \<le> M example_even \<and> encodes_bits example_even example_bits_x \<and>
   encodes_bits example_even example_bits_y \<and>
   pond_shape example_bits_y = pond_shape example_bits_x \<and>
   plaintext example_bits_x = [0, 0, 1, 1] \<and> plaintext example_bits_y = [0, 1, 0, 1] \<and>
   (\<exists>z. bitwise_not example_even example_bits_x = Inr z \<and> plaintext z = [1, 1, 0, 0]) \<and>
   (\<exists>z. bitwise_and example_even example_share_draws example_bits_x example_bits_y = Inr z \<and>
         plaintext z = [0, 0, 0, 1]) \<and>
   (\<exists>z. bitwise_or example_even example_share_draws example_bits_x example_bits_y = Inr z \<and>
         plaintext z = [0, 1, 1, 1]) \<and>
   (\<exists>z. bitwise_xor example_even example_share_draws example_bits_x example_bits_y = Inr z \<and>
         plaintext z = [0, 1, 1, 0])"
proof -
  have h1: "2 \<le> M example_even" by (simp add: example_even_def)
  have px: "plaintext example_bits_x = [0, 0, 1, 1]"
    by (simp add: plaintext_def example_bits_x_def tensor_add_def)
  have py: "plaintext example_bits_y = [0, 1, 0, 1]"
    by (simp add: plaintext_def example_bits_y_def tensor_add_def)
  have h2: "encodes_bits example_even example_bits_x"
    by (simp add: encodes_bits_def example_even_def example_bits_x_def well_shaped_def tensor_add_def)
  have h3: "encodes_bits example_even example_bits_y"
    by (simp add: encodes_bits_def example_even_def example_bits_y_def well_shaped_def tensor_add_def)
  have h4: "pond_shape example_bits_y = pond_shape example_bits_x"
    by (simp add: example_bits_x_def example_bits_y_def)
  from boolean_truth_tables [OF h1 h2 h3 h4, of example_share_draws]
  have "(\<exists>z. bitwise_not example_even example_bits_x = Inr z \<and> plaintext z = [1, 1, 0, 0]) \<and>
   (\<exists>z. bitwise_and example_even example_share_draws example_bits_x example_bits_y = Inr z \<and>
         plaintext z = [0, 0, 0, 1]) \<and>
   (\<exists>z. bitwise_or example_even example_share_draws example_bits_x example_bits_y = Inr z \<and>
         plaintext z = [0, 1, 1, 1]) \<and>
   (\<exists>z. bitwise_xor example_even example_share_draws example_bits_x example_bits_y = Inr z \<and>
         plaintext z = [0, 1, 1, 0])"
    unfolding px py by simp
  with h1 h2 h3 h4 px py show ?thesis by blast
qed

end
